theory Spec2Isabelle
  imports Complex_Main
begin

section \<open>Python strings\<close>

text \<open>
  A Python \<open>str\<close> is a sequence of Unicode code points and \<open>len\<close> counts code points.
  The source's literals are mostly Chinese, so a string is modelled as the list of its
  code points; \<open>asc\<close> embeds an ASCII literal.
\<close>

type_synonym pystr = "nat list"

definition asc :: "string \<Rightarrow> pystr" where
  "asc s = map of_char s"

text \<open>\<open>s.startswith(p)\<close>, \<open>s.endswith(p)\<close> and \<open>p in s\<close>.\<close>

definition startswith :: "pystr \<Rightarrow> pystr \<Rightarrow> bool" where
  "startswith s p \<longleftrightarrow> take (length p) s = p"

definition endswith :: "pystr \<Rightarrow> pystr \<Rightarrow> bool" where
  "endswith s p \<longleftrightarrow> length p \<le> length s \<and> drop (length s - length p) s = p"

fun contains :: "pystr \<Rightarrow> pystr \<Rightarrow> bool" where
  "contains p [] = (p = [])"
| "contains p (c # cs) = (startswith (c # cs) p \<or> contains p cs)"

text \<open>
  \<open>str.lower()\<close>. On a string of ASCII code points it maps \<open>A\<close>..\<open>Z\<close> to \<open>a\<close>..\<open>z\<close> and
  leaves the rest. On a string with a code point beyond ASCII the result comes from the
  Unicode case tables of the interpreter (it can change the length, and the lower case of
  a capital sigma depends on its position); those tables are the parameter
  \<open>unicode_lower\<close>.
\<close>

definition lower_char :: "nat \<Rightarrow> nat" where
  "lower_char c = (if 65 \<le> c \<and> c \<le> 90 then c + 32 else c)"

definition lower :: "(pystr \<Rightarrow> pystr) \<Rightarrow> pystr \<Rightarrow> pystr" where
  "lower unicode_lower s =
     (if list_all (\<lambda>c. c < 128) s then map lower_char s else unicode_lower s)"

text \<open>
  The code points for which \<open>str.isspace()\<close> holds: they are what \<open>str.strip()\<close> removes
  and what \<open>str.split()\<close> splits at.
\<close>

definition isspace :: "nat \<Rightarrow> bool" where
  "isspace c \<longleftrightarrow>
     (9 \<le> c \<and> c \<le> 13) \<or> (28 \<le> c \<and> c \<le> 32) \<or> c = 133 \<or> c = 160 \<or> c = 5760 \<or>
     (8192 \<le> c \<and> c \<le> 8202) \<or> c = 8232 \<or> c = 8233 \<or> c = 8239 \<or> c = 8287 \<or> c = 12288"

definition lstrip :: "pystr \<Rightarrow> pystr" where
  "lstrip s = dropWhile isspace s"

definition rstrip :: "pystr \<Rightarrow> pystr" where
  "rstrip s = rev (dropWhile isspace (rev s))"

definition strip :: "pystr \<Rightarrow> pystr" where
  "strip s = rstrip (lstrip s)"

text \<open>\<open>len(s.split())\<close>: the number of maximal runs of non-space code points.\<close>

fun count_words :: "bool \<Rightarrow> pystr \<Rightarrow> nat" where
  "count_words in_word [] = 0"
| "count_words in_word (c # cs) =
     (if isspace c then count_words False cs
      else if in_word then count_words True cs
      else Suc (count_words True cs))"

text \<open>\<open>str(n)\<close> for a non-negative integer: its decimal digits.\<close>

fun str_nat :: "nat \<Rightarrow> pystr" where
  "str_nat n = (if n < 10 then [48 + n] else str_nat (n div 10) @ [48 + n mod 10])"

declare str_nat.simps [simp del]

definition str_bool :: "bool \<Rightarrow> pystr" where
  "str_bool b = (if b then asc ''True'' else asc ''False'')"

section \<open>Shell-word tokenization\<close>

text \<open>
  \<open>shlex.split(command)\<close> of the Python standard library: POSIX mode, no comment
  characters, splitting at whitespace only. The lexer reads one character at a time in one
  of four states: between tokens, inside a word, inside a quotation opened by \<open>q\<close>, and right
  after a backslash (remembering the state to return to: a word, or the double quotation).
  \<open>None\<close> is the \<open>ValueError\<close> raised at the end of input inside a quotation
  ("No closing quotation") or after a backslash ("No escaped character").
\<close>

datatype lex_state = Blank | Word | Quoted nat | Escaped "nat option"

definition shlex_whitespace :: "nat \<Rightarrow> bool" where
  "shlex_whitespace c \<longleftrightarrow> c = 32 \<or> c = 9 \<or> c = 13 \<or> c = 10"

definition shlex_quote :: "nat \<Rightarrow> bool" where
  "shlex_quote c \<longleftrightarrow> c = 39 \<or> c = 34"

fun read_tokens :: "lex_state \<Rightarrow> pystr \<Rightarrow> bool \<Rightarrow> pystr \<Rightarrow> pystr list option" where
  "read_tokens st tok quoted [] =
     (case st of
        Blank \<Rightarrow> if tok = [] \<and> \<not> quoted then Some [] else Some [tok]
      | Word \<Rightarrow> if tok = [] \<and> \<not> quoted then Some [] else Some [tok]
      | Quoted q \<Rightarrow> None
      | Escaped e \<Rightarrow> None)"
| "read_tokens st tok quoted (c # cs) =
     (case st of
        Blank \<Rightarrow>
          if shlex_whitespace c then
            (if tok = [] \<and> \<not> quoted then read_tokens Blank tok quoted cs
             else map_option (Cons tok) (read_tokens Blank [] False cs))
          else if c = 92 then read_tokens (Escaped None) tok quoted cs
          else if shlex_quote c then read_tokens (Quoted c) tok quoted cs
          else read_tokens Word [c] quoted cs
      | Word \<Rightarrow>
          if shlex_whitespace c then
            (if tok = [] \<and> \<not> quoted then read_tokens Blank tok quoted cs
             else map_option (Cons tok) (read_tokens Blank [] False cs))
          else if shlex_quote c then read_tokens (Quoted c) tok quoted cs
          else if c = 92 then read_tokens (Escaped None) tok quoted cs
          else read_tokens Word (tok @ [c]) quoted cs
      | Quoted q \<Rightarrow>
          if c = q then read_tokens Word tok True cs
          else if c = 92 \<and> q = 34 then read_tokens (Escaped (Some q)) tok True cs
          else read_tokens (Quoted q) (tok @ [c]) True cs
      | Escaped e \<Rightarrow>
          (case e of
             None \<Rightarrow> read_tokens Word (tok @ [c]) quoted cs
           | Some q \<Rightarrow>
               if c = 92 then read_tokens (Quoted q) (tok @ [c]) quoted cs
               else if c = q then read_tokens (Quoted q) (tok @ [c]) quoted cs
               else read_tokens (Quoted q) (tok @ [92, c]) quoted cs))"

definition shlex_split :: "pystr \<Rightarrow> pystr list option" where
  "shlex_split s = read_tokens Blank [] False s"

section \<open>The sensitive-command gate\<close>

text \<open>
  One entry of \<open>sensitive_commands\<close> in \<open>security.json\<close>. The code reads every key with
  \<open>dict.get\<close> and a default, so a key may be absent.
\<close>

record sensitive_rule =
  rule_pattern :: "pystr option"
  rule_description :: "pystr option"
  rule_os :: "pystr list option"

definition get_pattern :: "(pystr \<Rightarrow> pystr) \<Rightarrow> sensitive_rule \<Rightarrow> pystr" where
  "get_pattern unicode_lower r =
     lower unicode_lower (case rule_pattern r of None \<Rightarrow> [] | Some p \<Rightarrow> p)"

definition get_description :: "sensitive_rule \<Rightarrow> pystr" where
  "get_description r =
     (case rule_description r of None \<Rightarrow> [25935, 24863, 21629, 20196] | Some d \<Rightarrow> d)"

definition get_os :: "sensitive_rule \<Rightarrow> pystr list" where
  "get_os r = (case rule_os r of None \<Rightarrow> [] | Some os \<Rightarrow> os)"

definition applies_to :: "sensitive_rule \<Rightarrow> pystr \<Rightarrow> bool" where
  "applies_to r current_os \<longleftrightarrow> get_os r = [] \<or> List.member (get_os r) current_os"

text \<open>The two descriptions of \<open>main.py\<close>'s nested checks, and its answer on an exception.\<close>

definition dangerous_recursive_delete :: pystr where
  "dangerous_recursive_delete =
     [21361, 38505, 30340, 36882, 24402, 21024, 38500, 21629, 20196]"

definition writes_data_to_disk :: pystr where
  "writes_data_to_disk = [25968, 25454, 20889, 20837, 30913, 30424, 21629, 20196]"

definition check_failed_be_careful :: pystr where
  "check_failed_be_careful =
     [21629, 20196, 26816, 26597, 24322, 24120, 65292, 35831, 35880, 24910, 25191, 34892]"

text \<open>
  \<open>SecurityManager.is_sensitive_command\<close> of \<open>main.py\<close>: the loop over the rules (\<open>ul\<close> is
  the parameter of \<open>lower\<close>). For a
  rule that applies to the platform, the basic match on the first token returns at once;
  only when it fails and the pattern occurs in the command are the two nested checks made,
  and when neither holds the loop goes on to the next rule.
\<close>

fun scan_rules_main :: "(pystr \<Rightarrow> pystr) \<Rightarrow> pystr \<Rightarrow> pystr \<Rightarrow> pystr list \<Rightarrow> pystr \<Rightarrow> sensitive_rule list \<Rightarrow> bool \<times> pystr" where
  "scan_rules_main ul current_os base_cmd cmd_parts command [] = (False, [])"
| "scan_rules_main ul current_os base_cmd cmd_parts command (r # rs) =
     (if applies_to r current_os then
        (if base_cmd = get_pattern ul r \<or> startswith base_cmd (get_pattern ul r @ [32])
         then (True, get_description r)
         else if contains (get_pattern ul r) command then
           (if base_cmd = asc ''rm'' \<and> List.member cmd_parts (asc ''-rf'') \<and>
               list_ex (\<lambda>arg. arg = asc ''/'' \<or> arg = asc ''*'') cmd_parts
            then (True, dangerous_recursive_delete)
            else if base_cmd = asc ''dd'' \<and> list_ex (\<lambda>arg. startswith arg (asc ''of='')) cmd_parts
            then (True, writes_data_to_disk)
            else scan_rules_main ul current_os base_cmd cmd_parts command rs)
         else scan_rules_main ul current_os base_cmd cmd_parts command rs)
      else scan_rules_main ul current_os base_cmd cmd_parts command rs)"

definition is_sensitive_command_main :: "(pystr \<Rightarrow> pystr) \<Rightarrow> pystr \<Rightarrow> sensitive_rule list \<Rightarrow> pystr \<Rightarrow> bool \<times> pystr" where
  "is_sensitive_command_main ul current_os sensitive_commands command =
     (case shlex_split command of
        None \<Rightarrow> (True, check_failed_be_careful)
      | Some cmd_parts \<Rightarrow>
          (case cmd_parts of
             [] \<Rightarrow> (False, [])
           | first # rest \<Rightarrow>
               scan_rules_main ul current_os (lower ul first) cmd_parts command sensitive_commands))"

text \<open>
  \<open>SecurityManager.is_sensitive_command\<close> of \<open>agent.py\<close>, the variant the HTTP service
  imports: no nested checks, an early return on an empty rule list, and
  \<open>return False, ""\<close> in the exception handler.
\<close>

fun scan_rules_agent :: "(pystr \<Rightarrow> pystr) \<Rightarrow> pystr \<Rightarrow> pystr \<Rightarrow> pystr \<Rightarrow> sensitive_rule list \<Rightarrow> bool \<times> pystr" where
  "scan_rules_agent ul current_os base_cmd command [] = (False, [])"
| "scan_rules_agent ul current_os base_cmd command (r # rs) =
     (if applies_to r current_os then
        (if base_cmd = get_pattern ul r \<or> startswith base_cmd (get_pattern ul r @ [32])
         then (True, get_description r)
         else if contains (get_pattern ul r) command then (True, get_description r)
         else scan_rules_agent ul current_os base_cmd command rs)
      else scan_rules_agent ul current_os base_cmd command rs)"

definition is_sensitive_command_agent :: "(pystr \<Rightarrow> pystr) \<Rightarrow> pystr \<Rightarrow> sensitive_rule list \<Rightarrow> pystr \<Rightarrow> bool \<times> pystr" where
  "is_sensitive_command_agent ul current_os sensitive_commands command =
     (if sensitive_commands = [] then (False, [])
      else
        (case shlex_split command of
           None \<Rightarrow> (False, [])
         | Some cmd_parts \<Rightarrow>
             (case cmd_parts of
                [] \<Rightarrow> (False, [])
              | first # rest \<Rightarrow>
                  scan_rules_agent ul current_os (lower ul first) command sensitive_commands)))"

text \<open>
  \<open>is_sensitive_command\<close> of \<open>tools/execute.py\<close>, which the \<open>execute\<close> tool calls before
  running a command. It reads the rule list from \<open>security.json\<close> on every call (the
  list is a parameter here) and then runs the same statements as the variant of
  \<open>agent.py\<close>.
\<close>

definition is_sensitive_command_execute :: "(pystr \<Rightarrow> pystr) \<Rightarrow> pystr \<Rightarrow> sensitive_rule list \<Rightarrow> pystr \<Rightarrow> bool \<times> pystr" where
  "is_sensitive_command_execute ul current_os sensitive_commands command =
     (if sensitive_commands = [] then (False, [])
      else
        (case shlex_split command of
           None \<Rightarrow> (False, [])
         | Some cmd_parts \<Rightarrow>
             (case cmd_parts of
                [] \<Rightarrow> (False, [])
              | first # rest \<Rightarrow>
                  scan_rules_agent ul current_os (lower ul first) command sensitive_commands)))"

text \<open>The rule list that \<open>create_default_security_config\<close> of \<open>main.py\<close> writes.\<close>

definition mk_rule :: "pystr \<Rightarrow> pystr \<Rightarrow> pystr list \<Rightarrow> sensitive_rule" where
  "mk_rule p d os = \<lparr>rule_pattern = Some p, rule_description = Some d, rule_os = Some os\<rparr>"

definition deletes_files_or_directories :: pystr where
  "deletes_files_or_directories =
     [21024, 38500, 25991, 20214, 25110, 30446, 24405, 21629, 20196]"

definition default_sensitive_commands :: "sensitive_rule list" where
  "default_sensitive_commands =
     [mk_rule (asc ''rm'') deletes_files_or_directories [asc ''linux'', asc ''darwin''],
      mk_rule (asc ''rmdir'') [21024, 38500, 30446, 24405, 21629, 20196]
        [asc ''linux'', asc ''darwin'', asc ''windows''],
      mk_rule (asc ''del'') [21024, 38500, 25991, 20214, 21629, 20196] [asc ''windows''],
      mk_rule (asc ''format'') [26684, 24335, 21270, 30913, 30424, 21629, 20196]
        [asc ''windows'', asc ''linux'', asc ''darwin''],
      mk_rule (asc ''fdisk'') [30913, 30424, 20998, 21306, 21629, 20196]
        [asc ''linux'', asc ''darwin''],
      mk_rule (asc ''mkfs'') [21019, 24314, 25991, 20214, 31995, 32479, 21629, 20196]
        [asc ''linux'', asc ''darwin''],
      mk_rule (asc '':(){'') [102, 111, 114, 107, 28856, 24377] [asc ''linux'', asc ''darwin''],
      mk_rule (asc ''dd'') [25968, 25454, 22797, 21046, 21629, 20196]
        [asc ''linux'', asc ''darwin''],
      mk_rule (asc ''chmod'') [20462, 25913, 25991, 20214, 26435, 38480, 21629, 20196]
        [asc ''linux'', asc ''darwin''],
      mk_rule (asc ''chown'') [20462, 25913, 25991, 20214, 25152, 26377, 32773, 21629, 20196]
        [asc ''linux'', asc ''darwin''],
      mk_rule (asc ''sudo'') [36229, 32423, 29992, 25143, 25191, 34892, 21629, 20196]
        [asc ''linux'', asc ''darwin''],
      mk_rule (asc ''diskpart'') [30913, 30424, 20998, 21306, 24037, 20855] [asc ''windows'']]"

section \<open>The conversation store\<close>

datatype role = System | User | Assistant

record message =
  role :: role
  content :: pystr

text \<open>
  A tool call \<open>{"name": ..., "args": {...}}\<close>; the arguments are a dictionary from strings
  to strings, kept in insertion order as Python keeps it.
\<close>

record tool_call =
  call_name :: pystr
  call_args :: "(pystr \<times> pystr) list"

text \<open>
  What a tool returns: \<open>success\<close>, \<open>result\<close> (absent or \<open>None\<close>, or a text), the truth of
  \<open>exit\<close>, and \<open>user_input\<close> when the key is there.
\<close>

record tool_result =
  success :: bool
  result_text :: "pystr option"
  exit_flag :: bool
  user_input :: "pystr option"

text \<open>\<open>DialogueManager\<close> of \<open>agent.py\<close>.\<close>

record dialogue =
  max_tokens :: int
  messages :: "message list"
  last_tool_was_info :: bool

definition new_dialogue :: "int \<Rightarrow> dialogue" where
  "new_dialogue mx = \<lparr>max_tokens = mx, messages = [], last_tool_was_info = False\<rparr>"

definition add_system_message :: "dialogue \<Rightarrow> pystr \<Rightarrow> dialogue" where
  "add_system_message dm text =
     dm\<lparr>messages := messages dm @ [\<lparr>role = System, content = text\<rparr>]\<rparr>"

definition add_user_message :: "dialogue \<Rightarrow> pystr \<Rightarrow> dialogue" where
  "add_user_message dm text =
     dm\<lparr>messages := messages dm @ [\<lparr>role = User, content = text\<rparr>]\<rparr>"

definition add_assistant_message :: "dialogue \<Rightarrow> pystr \<Rightarrow> dialogue" where
  "add_assistant_message dm text =
     dm\<lparr>messages := messages dm @ [\<lparr>role = Assistant, content = text\<rparr>]\<rparr>"

text \<open>
  \<open>sum(len(str(msg.get("content", ""))) for msg in self.messages) // 4\<close>
\<close>

definition total_tokens :: "message list \<Rightarrow> nat" where
  "total_tokens msgs = sum_list (map (\<lambda>m. length (content m)) msgs) div 4"

text \<open>
  The inner \<open>for\<close> loop of \<open>_trim_history\<close>: \<open>pop\<close> the first message whose role is not
  \<open>system\<close>. \<open>None\<close> when there is none, and then the loop changes nothing.
\<close>

fun pop_first_non_system :: "message list \<Rightarrow> message list option" where
  "pop_first_non_system [] = None"
| "pop_first_non_system (m # ms) =
     (if role m = System then map_option (Cons m) (pop_first_non_system ms) else Some ms)"

text \<open>
  The \<open>while\<close> loop of \<open>_trim_history\<close>. When the estimate is above the ceiling, more
  than two messages remain and all of them are system messages, the \<open>for\<close> loop removes
  nothing and the \<open>while\<close> condition stays true: the source never returns, and the
  value here is \<open>None\<close>.
\<close>

partial_function (option) trim_loop :: "int \<Rightarrow> message list \<Rightarrow> message list option" where
  "trim_loop mx msgs =
     (if mx < int (total_tokens msgs) \<and> 2 < length msgs then
        (case pop_first_non_system msgs of
           None \<Rightarrow> trim_loop mx msgs
         | Some msgs' \<Rightarrow> trim_loop mx msgs')
      else Some msgs)"

definition trim_history :: "dialogue \<Rightarrow> dialogue option" where
  "trim_history dm =
     map_option (\<lambda>msgs. dm\<lparr>messages := msgs\<rparr>) (trim_loop (max_tokens dm) (messages dm))"

text \<open>
  \<open>json.dumps(tool_args, ensure_ascii=False)\<close> on a dictionary of strings: the library
  escapes the quotation mark, the backslash and the control characters below \<open>0x20\<close>, and
  leaves every other code point as it is.
\<close>

definition hex_digit :: "nat \<Rightarrow> nat" where
  "hex_digit d = (if d < 10 then 48 + d else 87 + d)"

definition json_escape_char :: "nat \<Rightarrow> pystr" where
  "json_escape_char c =
     (if c = 34 then [92, 34]
      else if c = 92 then [92, 92]
      else if c = 8 then [92, 98]
      else if c = 12 then [92, 102]
      else if c = 10 then [92, 110]
      else if c = 13 then [92, 114]
      else if c = 9 then [92, 116]
      else if c < 32 then [92, 117, 48, 48, hex_digit (c div 16), hex_digit (c mod 16)]
      else [c])"

definition json_string :: "pystr \<Rightarrow> pystr" where
  "json_string s = [34] @ concat (map json_escape_char s) @ [34]"

fun json_items :: "(pystr \<times> pystr) list \<Rightarrow> pystr" where
  "json_items [] = []"
| "json_items [(k, v)] = json_string k @ [58, 32] @ json_string v"
| "json_items ((k, v) # kv # kvs) =
     json_string k @ [58, 32] @ json_string v @ [44, 32] @ json_items (kv # kvs)"

definition json_dumps :: "(pystr \<times> pystr) list \<Rightarrow> pystr" where
  "json_dumps d = [123] @ json_items d @ [125]"

text \<open>
  The body that \<open>add_tool_result\<close> embeds: a text longer than 4000 characters is cut to
  its first 4000 and followed by the marker, which names \<open>len(result_text)\<close> as evaluated
  before the assignment, the length of the whole text.
\<close>

definition marker_prefix :: pystr where
  "marker_prefix = [10, 46, 46, 46, 32, 91, 20869, 23481, 24050, 25130, 26029, 65292, 20849, 32]"

definition marker_suffix :: pystr where
  "marker_suffix = [32, 23383, 31526, 93]"

definition truncation_marker :: "nat \<Rightarrow> pystr" where
  "truncation_marker n = marker_prefix @ str_nat n @ marker_suffix"

definition capped_result :: "pystr \<Rightarrow> pystr" where
  "capped_result body =
     (if 4000 < length body
      then take 4000 body @ truncation_marker (length body)
      else body)"

text \<open>
  The message of \<open>add_tool_result\<close>, in the three parts the code appends: the lines with
  the tool name, the arguments and the success flag; the result; and the reply of the
  user when the tool is \<open>interact\<close> and the result has the key \<open>user_input\<close>.
\<close>

definition result_header :: "tool_call \<Rightarrow> tool_result \<Rightarrow> pystr" where
  "result_header tool_call res =
     [24037, 20855, 35843, 29992, 32467, 26524, 32, 40] @ call_name tool_call @ [41, 10]
     @ [21442, 25968, 58, 32] @ json_dumps (call_args tool_call) @ [10]
     @ [25104, 21151, 58, 32] @ str_bool (success res) @ [10]"

definition result_label :: pystr where
  "result_label = [32467, 26524, 58, 10]"

definition result_body :: "tool_result \<Rightarrow> pystr" where
  "result_body res =
     (case result_text res of
        Some text \<Rightarrow> result_label @ capped_result text
      | None \<Rightarrow> [32467, 26524, 58, 32, 26080, 20869, 23481])"

definition interact_suffix :: "tool_call \<Rightarrow> tool_result \<Rightarrow> pystr" where
  "interact_suffix tool_call res =
     (if call_name tool_call = asc ''interact'' then
        (case user_input res of
           Some reply \<Rightarrow> [10, 29992, 25143, 36755, 20837, 58, 32] @ reply
         | None \<Rightarrow> [])
      else [])"

definition tool_result_message :: "tool_call \<Rightarrow> tool_result \<Rightarrow> pystr" where
  "tool_result_message tool_call res =
     result_header tool_call res @ result_body res @ interact_suffix tool_call res"

definition add_tool_result :: "dialogue \<Rightarrow> tool_call \<Rightarrow> tool_result \<Rightarrow> dialogue option" where
  "add_tool_result dm tool_call res =
     trim_history
       (add_user_message
          (dm\<lparr>last_tool_was_info := (call_name tool_call = asc ''info'')\<rparr>)
          (tool_result_message tool_call res))"

definition was_last_tool_info :: "dialogue \<Rightarrow> bool" where
  "was_last_tool_info dm = last_tool_was_info dm"

section \<open>The response parser\<close>

text \<open>
  What \<open>send_request\<close> returns: the decoded body of the backend, or the dictionary
  \<open>{"error": ..., "details": ...}\<close> it builds itself. The code looks at the keys \<open>error\<close>,
  \<open>details\<close> and \<open>choices\<close>. A choice is \<open>None\<close> when it has no \<open>message\<close> key,
  \<open>Some None\<close> when its message has no \<open>content\<close>, \<open>Some (Some c)\<close> otherwise.
\<close>

type_synonym choice = "pystr option option"

record api_response =
  resp_error :: "pystr option"
  resp_details :: "pystr option"
  resp_choices :: "choice list option"

definition choice_content :: "choice \<Rightarrow> pystr" where
  "choice_content c = (case c of Some (Some text) \<Rightarrow> text | _ \<Rightarrow> [])"

text \<open>
  The three shapes \<open>parse_response\<close> returns: the string \<open>"EOF"\<close>, a dictionary of type
  \<open>error\<close> (its message, and the content when it carries one), or a tool call.
\<close>

datatype parsed = EOF | Parse_error pystr "pystr option" | Tool_call tool_call

text \<open>
  \<open>re.search(r'...|exit|quit', content, re.IGNORECASE)\<close> compares letters without
  their case: besides \<open>A\<close>..\<open>Z\<close>, the code points \<open>0x130\<close> and \<open>0x131\<close> count as \<open>i\<close>,
  \<open>0x17F\<close> as \<open>s\<close> and \<open>0x212A\<close> as \<open>k\<close>.
\<close>

definition fold_case :: "nat \<Rightarrow> nat" where
  "fold_case c =
     (if 65 \<le> c \<and> c \<le> 90 then c + 32
      else if c = 304 then 105
      else if c = 305 then 105
      else if c = 383 then 115
      else if c = 8490 then 107
      else c)"

definition mentions_exit :: "pystr \<Rightarrow> bool" where
  "mentions_exit text \<longleftrightarrow>
     contains [36864, 20986] text \<or> contains [32467, 26463] text \<or>
     contains [23436, 25104] text \<or> contains (asc ''exit'') (map fold_case text) \<or>
     contains (asc ''quit'') (map fold_case text)"

definition task_completed :: pystr where
  "task_completed = [20219, 21153, 24050, 23436, 25104]"

text \<open>
  The last steps of \<open>parse_response\<close> (its comments 3.1 and 3.2, then the final error):
  guessing an \<open>exit\<close> call from the vocabulary, or an \<open>info\<close> call from a text of more than
  three words.
\<close>

definition keyword_fallback :: "pystr \<Rightarrow> pystr list \<Rightarrow> parsed" where
  "keyword_fallback text available_tools =
     (if mentions_exit text then
        Tool_call \<lparr>call_name = asc ''exit'',
          call_args = [(asc ''message'', if strip text = [] then task_completed else strip text)]\<rparr>
      else if 3 < count_words False (strip text) \<and> List.member available_tools (asc ''info'') then
        Tool_call \<lparr>call_name = asc ''info'', call_args = [(asc ''content'', strip text)]\<rparr>
      else
        Parse_error [26080, 27861, 35299, 26512, 21709, 24212, 20026, 24037, 20855, 35843, 29992]
          (Some text))"

text \<open>
  \<open>ModelCommunicator.parse_response\<close>. The steps between the \<open>EOF\<close> test and the keyword
  fallback (the fenced JSON block, the call syntax, the mention of a tool name) are regular
  expression searches and a JSON decoder of the standard library; they are the parameter
  \<open>structured\<close>, which answers \<open>None\<close> when none of them returns. An exception they raise
  is caught by the function's handler and returned as an error, which \<open>structured\<close> can
  answer as well.
\<close>

definition parse_response ::
  "(pystr \<Rightarrow> pystr list \<Rightarrow> parsed option) \<Rightarrow> api_response \<Rightarrow> pystr list \<Rightarrow> parsed" where
  "parse_response structured response available_tools =
     (case resp_error response of
        Some e \<Rightarrow> Parse_error e None
      | None \<Rightarrow>
          (case resp_choices response of
             None \<Rightarrow>
               Parse_error [27169, 22411, 21709, 24212, 20013, 27809, 26377, 99, 104, 111, 105,
                 99, 101, 115, 23383, 27573] None
           | Some [] \<Rightarrow>
               Parse_error [27169, 22411, 21709, 24212, 20013, 27809, 26377, 99, 104, 111, 105,
                 99, 101, 115, 23383, 27573] None
           | Some (c # cs) \<Rightarrow>
               (if choice_content c = [] then
                  Parse_error [27169, 22411, 21709, 24212, 20869, 23481, 20026, 31354] None
                else if strip (choice_content c) = asc ''EOF'' \<or>
                        endswith (strip (choice_content c)) (asc ''EOF'') then EOF
                else
                  (case structured (choice_content c) available_tools of
                     Some p \<Rightarrow> p
                   | None \<Rightarrow> keyword_fallback (choice_content c) available_tools))))"

section \<open>Tools\<close>

text \<open>
  A tool is a Python function with named parameters, called as
  \<open>tool_function(**tool_args)\<close>. The call raises \<open>TypeError\<close> before the body runs when
  an argument names no parameter or a parameter without a default gets no argument; the
  body returns a result or raises. \<open>Request_error\<close> is the one exception of this model that
  no tool raises: it comes from reading the body of an HTTP request.
\<close>

datatype py_exception =
  Unexpected_keyword pystr | Missing_argument pystr | Tool_failure pystr | Request_error pystr

datatype tool_outcome = Tool_returns tool_result | Tool_raises py_exception

record tool =
  tool_required :: "pystr list"
  tool_optional :: "pystr list"
  tool_body :: "(pystr \<times> pystr) list \<Rightarrow> tool_outcome"

definition call_tool :: "tool \<Rightarrow> (pystr \<times> pystr) list \<Rightarrow> tool_outcome" where
  "call_tool t kwargs =
     (case filter (\<lambda>k. \<not> List.member (tool_required t @ tool_optional t) k) (map fst kwargs) of
        k # ks \<Rightarrow> Tool_raises (Unexpected_keyword k)
      | [] \<Rightarrow>
          (case filter (\<lambda>p. \<not> List.member (map fst kwargs) p) (tool_required t) of
             p # ps \<Rightarrow> Tool_raises (Missing_argument p)
           | [] \<Rightarrow> tool_body t kwargs))"

text \<open>\<open>ToolManager.exit_program\<close>, built in, and \<open>execute\<close> of \<open>tools/info.py\<close>.\<close>

definition exit_program :: tool where
  "exit_program =
     \<lparr>tool_required = [], tool_optional = [asc ''message''],
      tool_body = (\<lambda>kwargs.
        Tool_returns
          \<lparr>success = True,
           result_text = Some (case map_of kwargs (asc ''message'') of
                                 None \<Rightarrow> task_completed | Some m \<Rightarrow> m),
           exit_flag = True, user_input = None\<rparr>)\<rparr>"

definition info_tool :: tool where
  "info_tool =
     \<lparr>tool_required = [asc ''content''], tool_optional = [],
      tool_body = (\<lambda>kwargs.
        Tool_returns
          \<lparr>success = True, result_text = map_of kwargs (asc ''content''),
           exit_flag = False, user_input = None\<rparr>)\<rparr>"

text \<open>\<open>execute\<close> of \<open>tools/interact.py\<close>; \<open>prompt\<close> has a default.\<close>

definition interact_tool :: tool where
  "interact_tool =
     \<lparr>tool_required = [asc ''content''], tool_optional = [asc ''prompt''],
      tool_body = (\<lambda>kwargs.
        Tool_returns
          \<lparr>success = True, result_text = Some [38656, 35201, 29992, 25143, 20132, 20114],
           exit_flag = False, user_input = None\<rparr>)\<rparr>"

text \<open>
  \<open>ToolManager\<close>: the loaded functions by name, and the names of \<open>tool_descriptions\<close>,
  which are the tools offered to the parser (a described tool may have failed to load).
\<close>

record tool_manager =
  tools :: "pystr \<rightharpoonup> tool"
  tool_names :: "pystr list"

section \<open>The agent\<close>

text \<open>
  What \<open>process_message\<close> takes from outside the agent: the answer of the model backend
  to a conversation (\<open>ModelCommunicator.send_request\<close>), the structured parsing rules, the
  loaded tools, and what \<open>AIAgent.__init__\<close> reads (the system prompt it builds from the
  machine, \<open>max_tokens\<close> of \<open>config.json\<close>).
\<close>

record env =
  send_request :: "message list \<Rightarrow> api_response"
  structured_rules :: "pystr \<Rightarrow> pystr list \<Rightarrow> parsed option"
  tool_manager :: tool_manager
  system_prompt :: pystr
  config_max_tokens :: int

record pending =
  pending_tool_call :: tool_call
  pending_content :: pystr
  pending_prompt :: pystr

text \<open>
  \<open>AIAgent\<close>: the dialogue manager and the pending interactions. \<open>invocations\<close> is the
  log of the calls \<open>tool_function(**tool_args)\<close> made so far, the effect of running a tool.
\<close>

record agent =
  dialogue_manager :: dialogue
  pending_interactions :: "pystr \<rightharpoonup> pending"
  invocations :: "tool_call list"

definition new_agent :: "env \<Rightarrow> agent" where
  "new_agent e =
     \<lparr>dialogue_manager = add_system_message (new_dialogue (config_max_tokens e)) (system_prompt e),
      pending_interactions = Map.empty,
      invocations = []\<rparr>"

text \<open>
  The dictionaries \<open>process_message\<close> and \<open>complete_interaction\<close> return, by the keys
  they carry; \<open>reply_type\<close> is the value of the key \<open>type\<close>.
\<close>

datatype reply =
    Transport_error pystr pystr
  | Parse_error_reply pystr pystr
  | Warning_reply pystr pystr pystr
  | Unknown_tool pystr
  | Interaction_required pystr pystr pystr
  | Exit_reply pystr
  | Tool_result_reply pystr bool pystr
  | Unknown_interaction pystr

fun reply_type :: "reply \<Rightarrow> pystr" where
  "reply_type (Transport_error m d) = asc ''error''"
| "reply_type (Parse_error_reply m c) = asc ''error''"
| "reply_type (Warning_reply m r n) = asc ''warning''"
| "reply_type (Unknown_tool m) = asc ''error''"
| "reply_type (Interaction_required i c p) = asc ''interaction_required''"
| "reply_type (Exit_reply m) = asc ''exit''"
| "reply_type (Tool_result_reply t ok r) = asc ''tool_result''"
| "reply_type (Unknown_interaction m) = asc ''error''"

text \<open>
  A call of a method of the agent returns a dictionary, or raises, or never returns (the
  loop of \<open>_trim_history\<close>). The agent is mutated in place, so an exception leaves it as it
  was when raised.
\<close>

datatype outcome = Returns reply agent | Raises py_exception agent | Diverges

definition or_default :: "pystr option \<Rightarrow> pystr \<Rightarrow> pystr" where
  "or_default v d = (case v of None \<Rightarrow> d | Some x \<Rightarrow> x)"

definition consecutive_info_detected :: pystr where
  "consecutive_info_detected =
     [26816, 27979, 21040, 36830, 32493, 20351, 29992, 105, 110, 102, 111, 24037, 20855, 12290,
      35831, 25913, 29992, 20854, 20182, 24037, 20855, 25191, 34892, 20855, 20307, 25805, 20316,
      12290]"

definition consecutive_info :: pystr where
  "consecutive_info = [36830, 32493, 20351, 29992, 105, 110, 102, 111, 24037, 20855]"

definition use_another_tool :: pystr where
  "use_another_tool =
     [35831, 20351, 29992, 20854, 20182, 24037, 20855, 25191, 34892, 20855, 20307, 25805, 20316,
      65292, 32780, 38750, 32487, 32493, 25552, 20379, 20449, 24687, 12290]"

definition unknown_tool_text :: "pystr \<Rightarrow> pystr" where
  "unknown_tool_text tool_name = [26410, 30693, 24037, 20855, 58, 32] @ tool_name"

definition please_reply :: pystr where
  "please_reply = [35831, 36755, 20837, 24744, 30340, 22238, 22797]"

definition record_result :: "agent \<Rightarrow> tool_call \<Rightarrow> tool_result \<Rightarrow> agent option" where
  "record_result ag tool_call res =
     map_option (\<lambda>dm. ag\<lparr>dialogue_manager := dm\<rparr>)
       (add_tool_result (dialogue_manager ag) tool_call res)"

text \<open>
  The dispatch of \<open>process_message\<close>, from the loop guard on: \<open>ag\<close> already holds the
  user message and the assistant message. \<open>interaction_id\<close> is the value of
  \<open>str(uuid.uuid4())\<close>, used when the tool is \<open>interact\<close>.
\<close>

definition dispatch :: "env \<Rightarrow> pystr \<Rightarrow> agent \<Rightarrow> tool_call \<Rightarrow> outcome" where
  "dispatch e interaction_id ag tool_call =
     (if call_name tool_call = asc ''info'' \<and> was_last_tool_info (dialogue_manager ag) then
        (case record_result ag tool_call
                \<lparr>success = False, result_text = Some consecutive_info_detected,
                 exit_flag = False, user_input = None\<rparr> of
           None \<Rightarrow> Diverges
         | Some ag' \<Rightarrow>
             Returns (Warning_reply consecutive_info consecutive_info_detected use_another_tool) ag')
      else
        (case tools (tool_manager e) (call_name tool_call) of
           None \<Rightarrow>
             (case record_result ag tool_call
                     \<lparr>success = False, result_text = Some (unknown_tool_text (call_name tool_call)),
                      exit_flag = False, user_input = None\<rparr> of
                None \<Rightarrow> Diverges
              | Some ag' \<Rightarrow> Returns (Unknown_tool (unknown_tool_text (call_name tool_call))) ag')
         | Some tool_function \<Rightarrow>
             (if call_name tool_call = asc ''interact'' then
                Returns
                  (Interaction_required interaction_id
                     (or_default (map_of (call_args tool_call) (asc ''content'')) please_reply)
                     (or_default (map_of (call_args tool_call) (asc ''prompt''))
                        (please_reply @ [58, 32])))
                  (ag\<lparr>pending_interactions := (pending_interactions ag)(interaction_id \<mapsto>
                     \<lparr>pending_tool_call = tool_call,
                      pending_content =
                        or_default (map_of (call_args tool_call) (asc ''content'')) please_reply,
                      pending_prompt =
                        or_default (map_of (call_args tool_call) (asc ''prompt''))
                          (please_reply @ [58, 32])\<rparr>)\<rparr>)
              else
                (case call_tool tool_function (call_args tool_call) of
                   Tool_raises x \<Rightarrow> Raises x (ag\<lparr>invocations := invocations ag @ [tool_call]\<rparr>)
                 | Tool_returns res \<Rightarrow>
                     (case record_result (ag\<lparr>invocations := invocations ag @ [tool_call]\<rparr>)
                             tool_call res of
                        None \<Rightarrow> Diverges
                      | Some ag' \<Rightarrow>
                          (if call_name tool_call = asc ''exit'' \<and> success res \<and> exit_flag res
                           then Returns (Exit_reply (or_default (result_text res) task_completed)) ag'
                           else Returns
                                  (Tool_result_reply (call_name tool_call) (success res)
                                     (or_default (result_text res) []))
                                  ag'))))))"

text \<open>
  The assistant message \<open>process_message\<close> appends: the content of the first choice, when
  there is one and it is not empty.
\<close>

definition add_model_response :: "dialogue \<Rightarrow> api_response \<Rightarrow> dialogue" where
  "add_model_response dm response =
     (case resp_choices response of
        Some (Some m # cs) \<Rightarrow>
          (if or_default m [] = [] then dm else add_assistant_message dm (or_default m []))
      | _ \<Rightarrow> dm)"

definition with_dialogue :: "agent \<Rightarrow> dialogue \<Rightarrow> agent" where
  "with_dialogue ag dm = ag\<lparr>dialogue_manager := dm\<rparr>"

text \<open>\<open>AIAgent.process_message\<close>.\<close>

definition process_message :: "env \<Rightarrow> pystr \<Rightarrow> agent \<Rightarrow> pystr \<Rightarrow> outcome" where
  "process_message e interaction_id ag text =
     (let dm1 = add_user_message (dialogue_manager ag) text;
          response = send_request e (messages dm1)
      in case resp_error response of
           Some err \<Rightarrow>
             Returns (Transport_error err (or_default (resp_details response) []))
               (with_dialogue ag dm1)
         | None \<Rightarrow>
             (let parsed_response =
                    parse_response (structured_rules e) response (tool_names (tool_manager e));
                  ag2 = with_dialogue ag (add_model_response dm1 response)
              in case parsed_response of
                   Parse_error m c \<Rightarrow> Returns (Parse_error_reply m (or_default c [])) ag2
                 | EOF \<Rightarrow>
                     dispatch e interaction_id ag2
                       \<lparr>call_name = asc ''exit'', call_args = [(asc ''message'', task_completed)]\<rparr>
                 | Tool_call tool_call \<Rightarrow> dispatch e interaction_id ag2 tool_call))"

definition continue_task :: pystr where
  "continue_task = [32487, 32493, 25191, 34892, 20219, 21153]"

definition unknown_or_expired :: "pystr \<Rightarrow> pystr" where
  "unknown_or_expired interaction_id =
     [20132, 20114, 73, 68, 32] @ interaction_id
     @ [32, 19981, 23384, 22312, 25110, 24050, 36807, 26399]"

text \<open>
  \<open>AIAgent.complete_interaction\<close>. \<open>next_id\<close> is the identifier the re-entered
  \<open>process_message\<close> would draw.
\<close>

definition complete_interaction :: "env \<Rightarrow> pystr \<Rightarrow> agent \<Rightarrow> pystr \<Rightarrow> pystr \<Rightarrow> outcome" where
  "complete_interaction e next_id ag interaction_id reply_text =
     (case pending_interactions ag interaction_id of
        None \<Rightarrow> Returns (Unknown_interaction (unknown_or_expired interaction_id)) ag
      | Some interaction \<Rightarrow>
          (case record_result
                  (ag\<lparr>pending_interactions := (pending_interactions ag)(interaction_id := None)\<rparr>)
                  (pending_tool_call interaction)
                  \<lparr>success = True,
                   result_text = Some ([29992, 25143, 22238, 22797, 58, 32] @ reply_text),
                   exit_flag = False, user_input = Some reply_text\<rparr> of
             None \<Rightarrow> Diverges
           | Some ag' \<Rightarrow> process_message e next_id ag' continue_task))"

section \<open>The HTTP surface\<close>

text \<open>
  The module-level dictionaries of \<open>app.py\<close>: \<open>sessions\<close>, \<open>interaction_requests\<close> and
  \<open>continuation_flags\<close>. Time is \<open>time.time()\<close>, seconds as a real number.
\<close>

record interaction_request =
  ir_session_id :: pystr
  ir_completed :: bool
  ir_created_at :: real
  ir_user_input :: "pystr option"

record server =
  sessions :: "pystr \<rightharpoonup> agent"
  interaction_requests :: "pystr \<rightharpoonup> interaction_request"
  continuation_flags :: "pystr \<rightharpoonup> bool"

text \<open>The JSON body of a request to \<open>/api/chat\<close>, by the keys the handler reads.\<close>

record chat_request =
  req_session_id :: "pystr option"
  req_message :: "pystr option"
  req_continue :: bool
  req_interaction_id :: "pystr option"

text \<open>
  What reading \<open>request.json\<close> and the first \<open>data.get\<close> give the handler. \<open>Json_value None\<close>
  is a body that is false for Python's \<open>not\<close> (JSON \<open>null\<close>, an empty object), and
  \<open>Json_value (Some data)\<close> a non-empty object. \<open>Json_error x\<close> is the exception raised
  inside the handler's \<open>try\<close> before any session is touched: by Flask when the body is
  missing or is not JSON (Flask versions that return \<open>None\<close> there give \<open>Json_value None\<close>),
  or by \<open>data.get\<close> when the body is a JSON value other than an object.
\<close>

datatype request_json = Json_error py_exception | Json_value "chat_request option"

text \<open>
  What one request draws from outside: the clock when the \<open>before_request\<close> hook runs and
  when an interaction request is stored, and the values of \<open>uuid.uuid4()\<close> for a new
  session and for new interactions.
\<close>

record ambient =
  now :: real
  stored_at :: real
  new_session_id :: pystr
  new_interaction_id :: pystr

text \<open>
  The responses: status 400 with an error text, status 500 with the text of the exception
  caught by the handler, or status 200 with the agent's dictionary extended by
  \<open>session_id\<close> and \<open>has_continuation\<close>.
\<close>

datatype http_response =
    Bad_request pystr
  | Server_error py_exception
  | Ok_response reply pystr bool

text \<open>\<open>cleanup_expired_data\<close>, which Flask runs before every request.\<close>

definition cleanup_expired_data :: "real \<Rightarrow> server \<Rightarrow> server" where
  "cleanup_expired_data current_time srv =
     srv\<lparr>interaction_requests :=
       (\<lambda>interaction_id.
          case interaction_requests srv interaction_id of
            None \<Rightarrow> None
          | Some d \<Rightarrow> if 1800 < current_time - ir_created_at d then None else Some d)\<rparr>"

definition body_is_empty :: pystr where
  "body_is_empty = [35831, 27714, 20307, 19981, 33021, 20026, 31354]"

definition message_is_empty :: pystr where
  "message_is_empty = [28040, 24687, 19981, 33021, 20026, 31354]"

text \<open>
  The session the handler works on: a request without \<open>session_id\<close> gets a new agent
  under a new identifier; an identifier that is not in \<open>sessions\<close> gets a new agent too.
\<close>

definition create_session :: "env \<Rightarrow> pystr \<Rightarrow> server \<Rightarrow> server" where
  "create_session e session_id srv =
     srv\<lparr>sessions := (sessions srv)(session_id \<mapsto> new_agent e),
         continuation_flags := (continuation_flags srv)(session_id \<mapsto> False)\<rparr>"

definition ensure_session :: "env \<Rightarrow> pystr \<Rightarrow> server \<Rightarrow> server" where
  "ensure_session e session_id srv =
     (case sessions srv session_id of None \<Rightarrow> create_session e session_id srv | Some ag \<Rightarrow> srv)"

definition session_agent :: "env \<Rightarrow> server \<Rightarrow> pystr \<Rightarrow> agent" where
  "session_agent e srv session_id =
     (case sessions srv session_id of None \<Rightarrow> new_agent e | Some ag \<Rightarrow> ag)"

definition put_agent :: "server \<Rightarrow> pystr \<Rightarrow> agent \<Rightarrow> server" where
  "put_agent srv session_id ag = srv\<lparr>sessions := (sessions srv)(session_id \<mapsto> ag)\<rparr>"

definition set_flag :: "server \<Rightarrow> pystr \<Rightarrow> bool \<Rightarrow> server" where
  "set_flag srv session_id b =
     srv\<lparr>continuation_flags := (continuation_flags srv)(session_id \<mapsto> b)\<rparr>"

text \<open>
  The branch of \<open>chat\<close> for a request whose \<open>interaction_id\<close> is in
  \<open>interaction_requests\<close>: the user is answering an interaction.
\<close>

definition chat_complete ::
  "env \<Rightarrow> ambient \<Rightarrow> server \<Rightarrow> pystr \<Rightarrow> pystr \<Rightarrow> interaction_request \<Rightarrow> pystr
     \<Rightarrow> (http_response \<times> server) option" where
  "chat_complete e amb srv session_id interaction_id d text =
     (let srv1 = srv\<lparr>interaction_requests := (interaction_requests srv)(interaction_id \<mapsto>
                   d\<lparr>ir_user_input := Some text, ir_completed := True\<rparr>)\<rparr>
      in case complete_interaction e (new_interaction_id amb)
                (session_agent e srv1 session_id) interaction_id text of
           Diverges \<Rightarrow> None
         | Raises x ag' \<Rightarrow> Some (Server_error x, put_agent srv1 session_id ag')
         | Returns r ag' \<Rightarrow>
             Some (Ok_response r session_id True,
                   set_flag (put_agent srv1 session_id ag') session_id True))"

text \<open>\<open>result.get('interaction_id')\<close>; only an interaction request carries the key.\<close>

definition reply_interaction_id :: "reply \<Rightarrow> pystr" where
  "reply_interaction_id r = (case r of Interaction_required i c p \<Rightarrow> i | _ \<Rightarrow> [])"

text \<open>
  The rest of \<open>chat\<close>: a new message, or a continuation request. The message is replaced
  by the fixed continuation text when the request asks to continue and the flag of the
  session is set; the flag is reset either way.
\<close>

definition chat_message ::
  "env \<Rightarrow> ambient \<Rightarrow> server \<Rightarrow> pystr \<Rightarrow> bool \<Rightarrow> pystr \<Rightarrow> (http_response \<times> server) option" where
  "chat_message e amb srv session_id continue_execution text =
     (let text1 = (if continue_execution \<and> continuation_flags srv session_id = Some True
                   then continue_task else text);
          srv1 = set_flag srv session_id False
      in case process_message e (new_interaction_id amb) (session_agent e srv1 session_id) text1 of
           Diverges \<Rightarrow> None
         | Raises x ag' \<Rightarrow> Some (Server_error x, put_agent srv1 session_id ag')
         | Returns r ag' \<Rightarrow>
             (if reply_type r = asc ''interaction_required'' then
                Some (Ok_response r session_id False,
                      set_flag
                        ((put_agent srv1 session_id ag')\<lparr>interaction_requests :=
                           (interaction_requests srv1)(reply_interaction_id r \<mapsto>
                             \<lparr>ir_session_id = session_id, ir_completed = False,
                              ir_created_at = stored_at amb, ir_user_input = None\<rparr>)\<rparr>)
                        session_id False)
              else
                Some (Ok_response r session_id True,
                      set_flag (put_agent srv1 session_id ag') session_id True)))"

text \<open>
  \<open>chat\<close>, the handler of \<open>POST /api/chat\<close>. An absent and an empty \<open>session_id\<close>, \<open>message\<close> or \<open>interaction_id\<close>
  are both false for Python's \<open>not\<close>.
\<close>

definition given :: "pystr option \<Rightarrow> pystr option" where
  "given v = (case v of None \<Rightarrow> None | Some x \<Rightarrow> if x = [] then None else Some x)"

definition chat :: "env \<Rightarrow> ambient \<Rightarrow> server \<Rightarrow> request_json \<Rightarrow> (http_response \<times> server) option" where
  "chat e amb srv request =
     (case request of
        Json_error x \<Rightarrow> Some (Server_error x, srv)
      | Json_value None \<Rightarrow> Some (Bad_request body_is_empty, srv)
      | Json_value (Some data) \<Rightarrow>
          (let session_id = (case given (req_session_id data) of
                               None \<Rightarrow> new_session_id amb | Some sid \<Rightarrow> sid);
               srv1 = (case given (req_session_id data) of
                         None \<Rightarrow> create_session e session_id srv | Some sid \<Rightarrow> srv)
           in case given (req_message data) of
                None \<Rightarrow> Some (Bad_request message_is_empty, srv1)
              | Some text \<Rightarrow>
                  (let srv2 = ensure_session e session_id srv1
                   in case given (req_interaction_id data) of
                        None \<Rightarrow> chat_message e amb srv2 session_id (req_continue data) text
                      | Some interaction_id \<Rightarrow>
                          (case interaction_requests srv2 interaction_id of
                             None \<Rightarrow> chat_message e amb srv2 session_id (req_continue data) text
                           | Some d \<Rightarrow>
                               chat_complete e amb srv2 session_id interaction_id d text))))"

text \<open>One request to \<open>/api/chat\<close> as Flask serves it: the hook, then the handler.\<close>

definition handle_chat :: "env \<Rightarrow> ambient \<Rightarrow> server \<Rightarrow> request_json \<Rightarrow> (http_response \<times> server) option" where
  "handle_chat e amb srv request = chat e amb (cleanup_expired_data (now amb) srv) request"

section \<open>Predicates and example values used in the properties\<close>

text \<open>
  The pinned system message, in the words of the specification: the conversation starts
  with the system message built from \<open>prompt\<close>, and no other message has the role
  \<open>system\<close>.
\<close>

definition pinned :: "pystr \<Rightarrow> message list \<Rightarrow> bool" where
  "pinned prompt msgs =
     (case msgs of
        [] \<Rightarrow> False
      | m # rest \<Rightarrow>
          m = \<lparr>role = System, content = prompt\<rparr> \<and> list_all (\<lambda>m. role m \<noteq> System) rest)"

text \<open>
  The conversation states an agent can be in: \<open>AIAgent.__init__\<close> appends the system
  message to a new dialogue, and from then on the agent calls \<open>add_user_message\<close>,
  \<open>add_assistant_message\<close> and \<open>add_tool_result\<close> (which trims) only.
\<close>

inductive reachable :: "pystr \<Rightarrow> int \<Rightarrow> dialogue \<Rightarrow> bool" for prompt :: pystr and mx :: int where
  init: "reachable prompt mx (add_system_message (new_dialogue mx) prompt)"
| user: "reachable prompt mx dm \<Longrightarrow> reachable prompt mx (add_user_message dm text)"
| assistant: "reachable prompt mx dm \<Longrightarrow> reachable prompt mx (add_assistant_message dm text)"
| tool_result:
    "reachable prompt mx dm \<Longrightarrow> add_tool_result dm tool_call res = Some dm' \<Longrightarrow>
     reachable prompt mx dm'"
| trim: "reachable prompt mx dm \<Longrightarrow> trim_history dm = Some dm' \<Longrightarrow> reachable prompt mx dm'"

text \<open>The number a sequence of decimal digits states.\<close>

definition decimal_value :: "pystr \<Rightarrow> nat" where
  "decimal_value ds = foldl (\<lambda>a d. 10 * a + (d - 48)) 0 ds"




text \<open>The exception a call of the agent raised, if it raised.\<close>

fun raised :: "outcome \<Rightarrow> py_exception option" where
  "raised (Raises x ag) = Some x"
| "raised (Returns r ag) = None"
| "raised Diverges = None"

fun returned :: "outcome \<Rightarrow> reply option" where
  "returned (Returns r ag) = Some r"
| "returned (Raises x ag) = None"
| "returned Diverges = None"

fun agent_after :: "outcome \<Rightarrow> agent option" where
  "agent_after (Returns r ag) = Some ag"
| "agent_after (Raises x ag) = Some ag"
| "agent_after Diverges = None"

text \<open>
  An example environment: the backend always answers \<open>model_text\<close>, the structured rules
  always answer \<open>structured_answer\<close>, and the tools \<open>exit\<close> and \<open>info\<close> are loaded.
\<close>

definition example_tools :: tool_manager where
  "example_tools =
     \<lparr>tools = [asc ''exit'' \<mapsto> exit_program, asc ''info'' \<mapsto> info_tool],
      tool_names = [asc ''exit'', asc ''info'']\<rparr>"

definition example_env :: "pystr \<Rightarrow> parsed option \<Rightarrow> env" where
  "example_env model_text structured_answer =
     \<lparr>send_request = (\<lambda>msgs.
        \<lparr>resp_error = None, resp_details = None,
         resp_choices = Some [Some (Some model_text)]\<rparr>),
      structured_rules = (\<lambda>text available_tools. structured_answer),
      tool_manager = example_tools,
      system_prompt = asc ''system'',
      config_max_tokens = 16000\<rparr>"

text \<open>
  An example for the expiry of interactions: the backend first asks for the \<open>interact\<close>
  tool in call syntax and answers \<open>EOF\<close> afterwards; the tools \<open>exit\<close> and \<open>interact\<close> are
  loaded. A first request at time 0 opens a session and is answered by an interaction
  request; a second request, 1801 seconds later, answers that interaction.
\<close>

definition ask_name :: tool_call where
  "ask_name = \<lparr>call_name = asc ''interact'', call_args = [(asc ''content'', asc ''name'')]\<rparr>"

definition expiry_env :: env where
  "expiry_env =
     \<lparr>send_request = (\<lambda>msgs.
        \<lparr>resp_error = None, resp_details = None,
         resp_choices =
           Some [Some (Some (if length msgs \<le> 2 then asc ''interact(content=name)''
                             else asc ''EOF''))]\<rparr>),
      structured_rules = (\<lambda>text available_tools.
        if text = asc ''interact(content=name)'' then Some (Tool_call ask_name) else None),
      tool_manager =
        \<lparr>tools = [asc ''exit'' \<mapsto> exit_program, asc ''interact'' \<mapsto> interact_tool],
         tool_names = [asc ''exit'', asc ''interact'']\<rparr>,
      system_prompt = asc ''system'',
      config_max_tokens = 16000\<rparr>"

definition empty_server :: server where
  "empty_server =
     \<lparr>sessions = Map.empty, interaction_requests = Map.empty, continuation_flags = Map.empty\<rparr>"

definition first_request :: chat_request where
  "first_request =
     \<lparr>req_session_id = None, req_message = Some (asc ''hello''), req_continue = False,
      req_interaction_id = None\<rparr>"

definition first_ambient :: ambient where
  "first_ambient =
     \<lparr>now = 0, stored_at = 0, new_session_id = asc ''s1'', new_interaction_id = asc ''i1''\<rparr>"

definition late_request :: chat_request where
  "late_request =
     \<lparr>req_session_id = Some (asc ''s1''), req_message = Some (asc ''Ada''),
      req_continue = False, req_interaction_id = Some (asc ''i1'')\<rparr>"

definition late_ambient :: ambient where
  "late_ambient =
     \<lparr>now = 1801, stored_at = 1801, new_session_id = asc ''s2'', new_interaction_id = asc ''i2''\<rparr>"

text \<open>The server after the first request, and the answer to the second one.\<close>

definition server_after_first :: "server option" where
  "server_after_first =
     map_option snd (handle_chat expiry_env first_ambient empty_server (Json_value (Some first_request)))"

definition late_completion :: "(http_response \<times> server) option" where
  "late_completion =
     Option.bind server_after_first
       (\<lambda>srv. handle_chat expiry_env late_ambient srv (Json_value (Some late_request)))"

text \<open>What is seen of a session: the roles of its conversation, and a pending interaction.\<close>

definition session_roles :: "server \<Rightarrow> pystr \<Rightarrow> role list" where
  "session_roles srv session_id =
     (case sessions srv session_id of
        None \<Rightarrow> []
      | Some ag \<Rightarrow> map role (messages (dialogue_manager ag)))"

definition is_pending :: "server \<Rightarrow> pystr \<Rightarrow> pystr \<Rightarrow> bool" where
  "is_pending srv session_id interaction_id =
     (case sessions srv session_id of
        None \<Rightarrow> False
      | Some ag \<Rightarrow>
          (case pending_interactions ag interaction_id of None \<Rightarrow> False | Some p \<Rightarrow> True))"

text \<open>
  Two more environments: a backend that keeps asking for the \<open>info\<close> tool, and one that
  asks for it with an argument name the tool does not have.
\<close>

definition plan_call :: tool_call where
  "plan_call = \<lparr>call_name = asc ''info'', call_args = [(asc ''content'', asc ''plan'')]\<rparr>"

definition info_env :: env where
  "info_env = example_env (asc ''info(content=plan)'') (Some (Tool_call plan_call))"

definition after_first_info :: agent where
  "after_first_info =
     (case agent_after (process_message info_env (asc ''i1'') (new_agent info_env) (asc ''hello'')) of
        None \<Rightarrow> new_agent info_env
      | Some ag \<Rightarrow> ag)"

definition mismatch_call :: tool_call where
  "mismatch_call = \<lparr>call_name = asc ''info'', call_args = [(asc ''text'', asc ''hi'')]\<rparr>"

definition mismatch_env :: env where
  "mismatch_env = example_env (asc ''info(text=hi)'') (Some (Tool_call mismatch_call))"

section \<open>Properties of the response parser\<close>

lemma strip_done_eof: "strip (asc ''done, EOF'') = asc ''done, EOF''"
  by (simp add: strip_def lstrip_def rstrip_def asc_def isspace_def)

lemma strip_Nil: "strip [] = []"
  by (simp add: strip_def lstrip_def rstrip_def)

lemma strip_finished_eof:
  "strip [23436, 25104, 44, 32, 69, 79, 70] = [23436, 25104, 44, 32, 69, 79, 70]"
  by (simp add: strip_def lstrip_def rstrip_def isspace_def)

lemma fallback_would_guess_exit:
  "keyword_fallback [23436, 25104, 44, 32, 69, 79, 70] [asc ''exit'']
     = Tool_call \<lparr>call_name = asc ''exit'',
         call_args = [(asc ''message'', [23436, 25104, 44, 32, 69, 79, 70])]\<rparr>"
  by (simp add: keyword_fallback_def mentions_exit_def strip_finished_eof startswith_def)

lemma strip_words_eof:
  "strip (asc ''all four steps ran EOF'') = asc ''all four steps ran EOF''"
  by (simp add: strip_def lstrip_def rstrip_def isspace_def asc_def)

lemma fallback_would_guess_info:
  "keyword_fallback (asc ''all four steps ran EOF'') [asc ''exit'', asc ''info'']
     = Tool_call \<lparr>call_name = asc ''info'',
         call_args = [(asc ''content'', asc ''all four steps ran EOF'')]\<rparr>"
  by (simp add: keyword_fallback_def strip_words_eof)
     (simp add: mentions_exit_def startswith_def asc_def fold_case_def isspace_def)

text \<open>
  Claim C6. Whenever the stripped content of the response is \<open>EOF\<close> or ends with \<open>EOF\<close>, the
  parser returns the \<open>EOF\<close> sentinel, whatever tools are available and whatever the later
  rules would answer on that content: the \<open>EOF\<close> test is made first, and neither the
  structured rules nor the keyword fallback are consulted. The instances below are the
  content \<open>done, EOF\<close> with the tool \<open>exit\<close>, a content on which the keyword fallback
  would guess an \<open>exit\<close> call, and one on which it would guess an \<open>info\<close> call.
\<close>

theorem eof_rule_wins:
  assumes "resp_error response = None"
    and "resp_choices response = Some (c # cs)"
    and "strip (choice_content c) = asc ''EOF'' \<or> endswith (strip (choice_content c)) (asc ''EOF'')"
  shows "parse_response structured response available_tools = EOF"
proof -
  have "choice_content c \<noteq> []"
    using assms(3) by (auto simp: strip_Nil endswith_def asc_def)
  with assms show ?thesis
    by (simp add: parse_response_def)
qed

theorem eof_rule_wins_witness:
  "(\<forall>structured.
      parse_response structured
        \<lparr>resp_error = None, resp_details = None,
         resp_choices = Some [Some (Some (asc ''done, EOF''))]\<rparr>
        [asc ''exit''] = EOF) \<and>
   keyword_fallback [23436, 25104, 44, 32, 69, 79, 70] [asc ''exit'']
     = Tool_call \<lparr>call_name = asc ''exit'',
         call_args = [(asc ''message'', [23436, 25104, 44, 32, 69, 79, 70])]\<rparr> \<and>
   (\<forall>structured.
      parse_response structured
        \<lparr>resp_error = None, resp_details = None,
         resp_choices = Some [Some (Some [23436, 25104, 44, 32, 69, 79, 70])]\<rparr>
        [asc ''exit''] = EOF) \<and>
   keyword_fallback (asc ''all four steps ran EOF'') [asc ''exit'', asc ''info'']
     = Tool_call \<lparr>call_name = asc ''info'',
         call_args = [(asc ''content'', asc ''all four steps ran EOF'')]\<rparr> \<and>
   (\<forall>structured.
      parse_response structured
        \<lparr>resp_error = None, resp_details = None,
         resp_choices = Some [Some (Some (asc ''all four steps ran EOF''))]\<rparr>
        [asc ''exit'', asc ''info''] = EOF)"
proof -
  have done_eof: "endswith (strip (choice_content (Some (Some (asc ''done, EOF''))))) (asc ''EOF'')"
    by (simp add: choice_content_def strip_done_eof) (simp add: endswith_def asc_def)
  have finished_eof:
    "endswith (strip (choice_content (Some (Some [23436, 25104, 44, 32, 69, 79, 70])))) (asc ''EOF'')"
    by (simp add: choice_content_def strip_finished_eof) (simp add: endswith_def asc_def)
  have words_eof:
    "endswith (strip (choice_content (Some (Some (asc ''all four steps ran EOF''))))) (asc ''EOF'')"
    by (simp add: choice_content_def strip_words_eof) (simp add: endswith_def asc_def)
  show ?thesis
    using eof_rule_wins [of "\<lparr>resp_error = None, resp_details = None,
              resp_choices = Some [Some (Some (asc ''done, EOF''))]\<rparr>"
            "Some (Some (asc ''done, EOF''))" "[]" _ "[asc ''exit'']"]
          eof_rule_wins [of "\<lparr>resp_error = None, resp_details = None,
              resp_choices = Some [Some (Some [23436, 25104, 44, 32, 69, 79, 70])]\<rparr>"
            "Some (Some [23436, 25104, 44, 32, 69, 79, 70])" "[]" _ "[asc ''exit'']"]
          eof_rule_wins [of "\<lparr>resp_error = None, resp_details = None,
              resp_choices = Some [Some (Some (asc ''all four steps ran EOF''))]\<rparr>"
            "Some (Some (asc ''all four steps ran EOF''))" "[]" _ "[asc ''exit'', asc ''info'']"]
          done_eof finished_eof words_eof fallback_would_guess_exit fallback_would_guess_info
    by simp
qed

section \<open>Properties of the conversation store\<close>

lemma pinned_Cons:
  "pinned p msgs \<longleftrightarrow>
     (\<exists>rest. msgs = \<lparr>role = System, content = p\<rparr> # rest \<and> list_all (\<lambda>m. role m \<noteq> System) rest)"
  by (cases msgs) (auto simp: pinned_def)

lemma pinned_append:
  "pinned p msgs \<Longrightarrow> role m \<noteq> System \<Longrightarrow> pinned p (msgs @ [m])"
  by (auto simp: pinned_Cons)


lemma trim_loop_short: "length msgs \<le> 2 \<Longrightarrow> trim_loop mx msgs = Some msgs"
  by (subst trim_loop.simps) simp

lemma trim_loop_fixed:
  assumes "trim_loop mx msgs = Some out"
  shows "trim_loop mx out = Some out"
proof -
  have step: "trim_loop mx' out' = Some out'"
    if IH: "\<And>a b y. f a b = Some y \<Longrightarrow> trim_loop a y = Some y"
      and eq: "(if mx' < int (total_tokens msgs') \<and> 2 < length msgs'
                then case pop_first_non_system msgs' of None \<Rightarrow> f mx' msgs'
                     | Some m \<Rightarrow> f mx' m
                else Some msgs') = Some out'"
    for f mx' msgs' out'
  proof (cases "mx' < int (total_tokens msgs') \<and> 2 < length msgs'")
    case True
    with eq IH show ?thesis
      by (auto split: option.splits)
  next
    case False
    with eq have "out' = msgs'" by auto
    with False show ?thesis by (subst trim_loop.simps) auto
  qed
  show ?thesis
    by (rule trim_loop.raw_induct
          [where P = "\<lambda>mx msgs out. trim_loop mx out = Some out", OF step assms])
qed

lemma trim_loop_pinned:
  "pinned p msgs \<Longrightarrow>
   \<exists>msgs'. trim_loop mx msgs = Some msgs' \<and> pinned p msgs' \<and>
           (2 \<le> length msgs \<longrightarrow> last msgs' = last msgs)"
proof (induction "length msgs" arbitrary: msgs rule: less_induct)
  case less
  show ?case
  proof (cases "mx < int (total_tokens msgs) \<and> 2 < length msgs")
    case False
    then have "trim_loop mx msgs = Some msgs"
      by (subst trim_loop.simps) auto
    with less.prems show ?thesis by simp
  next
    case True
    from less.prems obtain rest where msgs: "msgs = \<lparr>role = System, content = p\<rparr> # rest"
      and others: "list_all (\<lambda>m. role m \<noteq> System) rest"
      by (auto simp: pinned_Cons)
    from True msgs obtain x y rest' where rest: "rest = x # y # rest'"
      by (cases rest; cases "tl rest") auto
    let ?next = "\<lparr>role = System, content = p\<rparr> # y # rest'"
    have pop: "pop_first_non_system msgs = Some ?next"
      using msgs rest others by simp
    have step: "trim_loop mx msgs = trim_loop mx ?next"
      using True pop by (subst trim_loop.simps) simp
    have "pinned p ?next"
      using others rest by (simp add: pinned_Cons)
    moreover have "length ?next < length msgs"
      using msgs rest by simp
    ultimately obtain msgs' where "trim_loop mx ?next = Some msgs'" "pinned p msgs'"
      "last msgs' = last ?next"
      using less.hyps [of ?next] by auto
    then show ?thesis
      using step msgs rest by auto
  qed
qed

lemma trim_history_pinned:
  "pinned p (messages dm) \<Longrightarrow>
   \<exists>dm'. trim_history dm = Some dm' \<and> pinned p (messages dm') \<and>
          last_tool_was_info dm' = last_tool_was_info dm \<and> max_tokens dm' = max_tokens dm \<and>
          (2 \<le> length (messages dm) \<longrightarrow> last (messages dm') = last (messages dm))"
  using trim_loop_pinned [of p "messages dm" "max_tokens dm"]
  by (auto simp: trim_history_def)

lemma trim_history_Some_pinned:
  "pinned p (messages dm) \<Longrightarrow> trim_history dm = Some dm' \<Longrightarrow> pinned p (messages dm')"
  using trim_history_pinned [of p dm] by auto

lemma add_tool_result_pinned:
  assumes "pinned p (messages dm)"
  shows "\<exists>dm'. add_tool_result dm tc res = Some dm' \<and> pinned p (messages dm') \<and>
          last_tool_was_info dm' = (call_name tc = asc ''info'') \<and>
          last (messages dm') = \<lparr>role = User, content = tool_result_message tc res\<rparr>"
proof -
  let ?dm1 = "add_user_message (dm\<lparr>last_tool_was_info := (call_name tc = asc ''info'')\<rparr>)
                (tool_result_message tc res)"
  from assms have p1: "pinned p (messages ?dm1)"
    by (simp add: add_user_message_def pinned_append)
  moreover have "2 \<le> length (messages ?dm1)"
    using assms by (auto simp: add_user_message_def pinned_Cons)
  ultimately show ?thesis
    using trim_history_pinned [OF p1]
    by (auto simp: add_tool_result_def add_user_message_def)
qed

lemma add_tool_result_flag:
  "add_tool_result dm tc res = Some dm' \<Longrightarrow> last_tool_was_info dm' = (call_name tc = asc ''info'')"
  by (auto simp: add_tool_result_def trim_history_def add_user_message_def)

lemma reachable_pinned: "reachable p mx dm \<Longrightarrow> pinned p (messages dm)"
proof (induction rule: reachable.induct)
  case init
  show ?case by (simp add: add_system_message_def new_dialogue_def pinned_def)
next
  case (user dm t)
  then show ?case by (simp add: add_user_message_def pinned_append)
next
  case (assistant dm t)
  then show ?case by (simp add: add_assistant_message_def pinned_append)
next
  case (tool_result dm tc res dm')
  then show ?case using add_tool_result_pinned [of p dm tc res] by auto
next
  case (trim dm dm')
  then show ?case by (auto intro: trim_history_Some_pinned)
qed

lemma pinned_facts:
  "pinned p msgs \<Longrightarrow>
   msgs \<noteq> [] \<and> msgs ! 0 = \<lparr>role = System, content = p\<rparr> \<and>
   filter (\<lambda>m. role m = System) msgs = [msgs ! 0]"
  by (auto simp: pinned_Cons list_all_iff filter_empty_conv)

lemma trim_history_idempotent:
  "Option.bind (trim_history dm) trim_history = trim_history dm"
proof (cases "trim_loop (max_tokens dm) (messages dm)")
  case None
  then show ?thesis by (simp add: trim_history_def)
next
  case (Some out)
  then show ?thesis
    using trim_loop_fixed [OF Some] by (simp add: trim_history_def)
qed

lemma decimal_value_str_nat: "decimal_value (str_nat n) = n"
proof (induction n rule: str_nat.induct)
  case (1 n)
  show ?case
  proof (cases "n < 10")
    case True
    then show ?thesis
      by (subst str_nat.simps) (simp add: decimal_value_def)
  next
    case False
    with 1 have "foldl (\<lambda>a d. 10 * a + (d - 48)) 0 (str_nat (n div 10)) = n div 10"
      by (simp add: decimal_value_def)
    with False show ?thesis
      by (subst str_nat.simps) (simp add: decimal_value_def)
  qed
qed

lemma str_nat_4001: "str_nat 4001 = [52, 48, 48, 49]"
  by (simp add: str_nat.simps)

lemma example_trim:
  "add_tool_result
     (add_user_message (add_system_message (new_dialogue 1) (asc ''system'')) (asc ''hello''))
     \<lparr>call_name = asc ''exit'', call_args = []\<rparr>
     \<lparr>success = True, result_text = None, exit_flag = True, user_input = None\<rparr>
   = Some \<lparr>max_tokens = 1,
       messages = [\<lparr>role = System, content = asc ''system''\<rparr>,
                   \<lparr>role = User, content = tool_result_message \<lparr>call_name = asc ''exit'', call_args = []\<rparr>
     \<lparr>success = True, result_text = None, exit_flag = True, user_input = None\<rparr>\<rparr>],
       last_tool_was_info = False\<rparr>"
  by (simp add: add_tool_result_def trim_history_def add_user_message_def add_system_message_def
        new_dialogue_def tool_result_message_def result_header_def result_body_def
        interact_suffix_def json_dumps_def str_bool_def asc_def total_tokens_def
        trim_loop.simps)

text \<open>
  Claim C5. In every conversation state an agent reaches, the message at index 0 exists, is
  the system message the agent was created with, and is the only message with the role
  \<open>system\<close>: appending a user message, an assistant message or a tool result, and
  trimming, all keep it there.
\<close>

theorem system_message_pinned:
  "reachable p mx dm \<Longrightarrow>
   messages dm \<noteq> [] \<and> messages dm ! 0 = \<lparr>role = System, content = p\<rparr> \<and>
   filter (\<lambda>m. role m = System) (messages dm) = [messages dm ! 0]"
  by (rule pinned_facts) (rule reachable_pinned)

theorem system_message_pinned_witness:
  "reachable (asc ''system'') 1
     \<lparr>max_tokens = 1,
      messages =
        [\<lparr>role = System, content = asc ''system''\<rparr>,
         \<lparr>role = User,
          content = tool_result_message \<lparr>call_name = asc ''exit'', call_args = []\<rparr>
            \<lparr>success = True, result_text = None, exit_flag = True, user_input = None\<rparr>\<rparr>],
      last_tool_was_info = False\<rparr> \<and>
   messages
     \<lparr>max_tokens = 1,
      messages =
        [\<lparr>role = System, content = asc ''system''\<rparr>,
         \<lparr>role = User,
          content = tool_result_message \<lparr>call_name = asc ''exit'', call_args = []\<rparr>
            \<lparr>success = True, result_text = None, exit_flag = True, user_input = None\<rparr>\<rparr>],
      last_tool_was_info = False\<rparr> ! 0 = \<lparr>role = System, content = asc ''system''\<rparr>"
proof -
  have r: "reachable (asc ''system'') 1
     \<lparr>max_tokens = 1,
      messages =
        [\<lparr>role = System, content = asc ''system''\<rparr>,
         \<lparr>role = User,
          content = tool_result_message \<lparr>call_name = asc ''exit'', call_args = []\<rparr>
            \<lparr>success = True, result_text = None, exit_flag = True, user_input = None\<rparr>\<rparr>],
      last_tool_was_info = False\<rparr>"
    by (rule reachable.tool_result [OF reachable.user [OF reachable.init] example_trim])
  show ?thesis
    using system_message_pinned [OF r] r by simp
qed



text \<open>
  Claim C7. \<open>add_tool_result\<close> returns on every conversation with the pinned system
  message (every reachable one) and its message is the last of the conversation. A result
  text longer than 4000 characters is embedded as its first 4000 characters followed by
  the marker, whose digits state the length of the whole text; a text of at most 4000
  characters is embedded as it is, with no marker.
\<close>

theorem tool_result_body_capped:
  assumes "pinned p (messages dm)" and "result_text res = Some body"
  shows "\<exists>dm'. add_tool_result dm tc res = Some dm' \<and>
           last (messages dm') =
             \<lparr>role = User,
              content =
                result_header tc res @ result_label @
                (if 4000 < length body
                 then take 4000 body @ marker_prefix @ str_nat (length body) @ marker_suffix
                 else body) @
                interact_suffix tc res\<rparr> \<and>
           decimal_value (str_nat (length body)) = length body"
  using add_tool_result_pinned [OF assms(1), of tc res] assms(2)
  by (auto simp: tool_result_message_def result_body_def capped_result_def
        truncation_marker_def decimal_value_str_nat)

theorem tool_result_body_capped_witness:
  "pinned (asc ''system'') (messages (add_system_message (new_dialogue 16000) (asc ''system''))) \<and>
   (\<exists>dm'. add_tool_result (add_system_message (new_dialogue 16000) (asc ''system''))
             \<lparr>call_name = asc ''read'', call_args = [(asc ''file_path'', asc ''a.txt'')]\<rparr>
             \<lparr>success = True, result_text = Some (replicate 4001 97), exit_flag = False,
              user_input = None\<rparr> = Some dm' \<and>
           content (last (messages dm')) =
             result_header \<lparr>call_name = asc ''read'', call_args = [(asc ''file_path'', asc ''a.txt'')]\<rparr>
               \<lparr>success = True, result_text = Some (replicate 4001 97), exit_flag = False,
                user_input = None\<rparr>
             @ result_label @ replicate 4000 97 @ marker_prefix @ [52, 48, 48, 49] @ marker_suffix)"
proof -
  have p: "pinned (asc ''system'') (messages (add_system_message (new_dialogue 16000) (asc ''system'')))"
    by (simp add: pinned_def add_system_message_def new_dialogue_def)
  have r: "result_text \<lparr>success = True, result_text = Some (replicate 4001 97), exit_flag = False,
              user_input = None\<rparr> = Some (replicate 4001 97)"
    by simp
  show ?thesis
    using tool_result_body_capped [OF p r,
        of "\<lparr>call_name = asc ''read'', call_args = [(asc ''file_path'', asc ''a.txt'')]\<rparr>"] p
    by (auto simp: str_nat_4001 interact_suffix_def asc_def)
qed

section \<open>Properties of the sensitive-command gate\<close>

lemmas gate_defs =
  is_sensitive_command_main_def is_sensitive_command_agent_def is_sensitive_command_execute_def
  shlex_split_def asc_def default_sensitive_commands_def shlex_whitespace_def shlex_quote_def
  lower_def lower_char_def mk_rule_def applies_to_def get_os_def get_pattern_def
  get_description_def startswith_def deletes_files_or_directories_def
  dangerous_recursive_delete_def check_failed_be_careful_def

text \<open>
  In \<open>main.py\<close> a rule whose pattern is the first token returns its own description
  before the nested checks are looked at.
\<close>

lemma basic_match_returns_first:
  "applies_to r current_os \<Longrightarrow> get_pattern ul r = lower ul first \<Longrightarrow>
   shlex_split command = Some (first # rest) \<Longrightarrow>
   is_sensitive_command_main ul current_os (r # rs) command = (True, get_description r)"
  by (simp add: is_sensitive_command_main_def)

text \<open>On a tokenization failure \<open>main.py\<close> answers sensitive, the other two variants do not.\<close>

lemma main_fails_closed:
  "shlex_split command = None \<Longrightarrow> fst (is_sensitive_command_main ul current_os rules command)"
  by (simp add: is_sensitive_command_main_def)

lemma agent_fails_open:
  "shlex_split command = None \<Longrightarrow> \<not> fst (is_sensitive_command_agent ul current_os rules command)"
  by (simp add: is_sensitive_command_agent_def)

lemma execute_fails_open:
  "shlex_split command = None \<Longrightarrow> \<not> fst (is_sensitive_command_execute ul current_os rules command)"
  by (simp add: is_sensitive_command_execute_def)

text \<open>
  Claim C1, evaluated on the default rule list under Linux. \<open>rm -rf /\<close> is sensitive, but
  with the description of the plain \<open>rm\<close> rule, not the description of a dangerous
  recursive delete: the basic match of the \<open>rm\<close> rule returns before the nested check
  is reached. \<open>rm -rf /tmp/x\<close> gets the same description. The variant of \<open>agent.py\<close> has no
  nested check at all.
\<close>

theorem rm_rf_root_generic_description:
  "is_sensitive_command_main ul (asc ''linux'') default_sensitive_commands (asc ''rm -rf /'')
     = (True, deletes_files_or_directories) \<and>
   is_sensitive_command_main ul (asc ''linux'') default_sensitive_commands (asc ''rm -rf /tmp/x'')
     = (True, deletes_files_or_directories) \<and>
   is_sensitive_command_agent ul (asc ''linux'') default_sensitive_commands (asc ''rm -rf /'')
     = (True, deletes_files_or_directories) \<and>
   deletes_files_or_directories \<noteq> dangerous_recursive_delete"
  by (simp add: gate_defs)

text \<open>
  Claim C2, evaluated on the command \<open>rm -rf "/\<close>, whose quotation is never closed.
  Tokenization raises; the variants of \<open>agent.py\<close> and \<open>tools/execute.py\<close> answer not
  sensitive, and only the variant of \<open>main.py\<close> answers sensitive.
\<close>

theorem tokenization_failure_fails_open:
  "shlex_split [114, 109, 32, 45, 114, 102, 32, 34, 47] = None \<and>
   is_sensitive_command_agent ul (asc ''linux'') default_sensitive_commands
     [114, 109, 32, 45, 114, 102, 32, 34, 47] = (False, []) \<and>
   is_sensitive_command_execute ul (asc ''linux'') default_sensitive_commands
     [114, 109, 32, 45, 114, 102, 32, 34, 47] = (False, []) \<and>
   is_sensitive_command_main ul (asc ''linux'') default_sensitive_commands
     [114, 109, 32, 45, 114, 102, 32, 34, 47] = (True, check_failed_be_careful)"
  by (simp add: gate_defs)

section \<open>Properties of the agent and of the HTTP surface\<close>

lemmas message_defs =
  add_tool_result_def trim_history_def add_user_message_def add_assistant_message_def
  add_system_message_def new_dialogue_def tool_result_message_def result_header_def
  result_body_def result_label_def interact_suffix_def json_dumps_def json_string_def
  json_escape_char_def str_bool_def total_tokens_def capped_result_def was_last_tool_info_def

lemmas agent_defs =
  process_message_def dispatch_def record_result_def parse_response_def choice_content_def
  add_model_response_def with_dialogue_def or_default_def call_tool_def new_agent_def
  example_env_def example_tools_def exit_program_def info_tool_def interact_tool_def
  task_completed_def strip_def lstrip_def rstrip_def isspace_def endswith_def

lemmas chat_defs =
  handle_chat_def chat_def chat_message_def chat_complete_def cleanup_expired_data_def
  given_def create_session_def ensure_session_def session_agent_def put_agent_def set_flag_def
  reply_interaction_id_def complete_interaction_def

lemmas expiry_defs =
  expiry_env_def ask_name_def empty_server_def first_request_def first_ambient_def
  late_request_def late_ambient_def please_reply_def


lemma parse_tool_call_no_error:
  "parse_response st response names = Tool_call tc \<Longrightarrow> resp_error response = None"
  by (auto simp: parse_response_def split: option.splits)

lemma add_model_response_pinned:
  "pinned p (messages dm) \<Longrightarrow> pinned p (messages (add_model_response dm response))"
  by (auto simp: add_model_response_def add_assistant_message_def pinned_append
        split: option.splits list.splits)

lemma add_model_response_flag:
  "last_tool_was_info (add_model_response dm response) = last_tool_was_info dm"
  by (auto simp: add_model_response_def add_assistant_message_def split: option.splits list.splits)

text \<open>
  The conversation of a new agent is reachable, and every call of \<open>process_message\<close> or
  \<open>complete_interaction\<close> that returns or raises leaves a reachable conversation: the
  pinned system message holds across any number of turns.
\<close>

lemma add_model_response_reachable:
  "reachable p mx dm \<Longrightarrow> reachable p mx (add_model_response dm response)"
  by (auto simp: add_model_response_def intro: reachable.assistant split: option.splits list.splits)

lemma dispatch_dialogue:
  "agent_after (dispatch e i ag tc) = Some ag' \<Longrightarrow>
   dialogue_manager ag' = dialogue_manager ag \<or>
   (\<exists>res. add_tool_result (dialogue_manager ag) tc res = Some (dialogue_manager ag'))"
  by (auto simp: dispatch_def record_result_def
        split: if_splits option.splits tool_outcome.splits)

lemma dispatch_reachable:
  assumes "reachable p mx (dialogue_manager ag)"
    and "agent_after (dispatch e i ag tc) = Some ag'"
  shows "reachable p mx (dialogue_manager ag')"
  using dispatch_dialogue [OF assms(2)] assms(1)
  by (auto intro: reachable.tool_result)

lemma process_message_reachable:
  assumes "reachable p mx (dialogue_manager ag)"
    and "agent_after (process_message e i ag t) = Some ag'"
  shows "reachable p mx (dialogue_manager ag')"
proof -
  let ?dm1 = "add_user_message (dialogue_manager ag) t"
  let ?response = "send_request e (messages ?dm1)"
  let ?ag2 = "with_dialogue ag (add_model_response ?dm1 ?response)"
  have r1: "reachable p mx ?dm1"
    using assms(1) by (rule reachable.user)
  have r2: "reachable p mx (dialogue_manager ?ag2)"
    using r1 by (simp add: with_dialogue_def add_model_response_reachable)
  show ?thesis
  proof (cases "resp_error ?response")
    case (Some err)
    with assms(2) have "dialogue_manager ag' = ?dm1"
      by (auto simp: process_message_def Let_def with_dialogue_def)
    with r1 show ?thesis by simp
  next
    case None
    show ?thesis
    proof (cases "parse_response (structured_rules e) ?response (tool_names (tool_manager e))")
      case EOF
      with None assms(2) show ?thesis
        by (auto simp: process_message_def Let_def intro: dispatch_reachable [OF r2])
    next
      case (Parse_error m c)
      with None assms(2) have "ag' = ?ag2"
        by (auto simp: process_message_def Let_def)
      with r2 show ?thesis by simp
    next
      case (Tool_call tc)
      with None assms(2) show ?thesis
        by (auto simp: process_message_def Let_def intro: dispatch_reachable [OF r2])
    qed
  qed
qed

lemma complete_interaction_reachable:
  assumes "reachable p mx (dialogue_manager ag)"
    and "agent_after (complete_interaction e n ag i t) = Some ag'"
  shows "reachable p mx (dialogue_manager ag')"
proof (cases "pending_interactions ag i")
  case None
  with assms show ?thesis by (simp add: complete_interaction_def)
next
  case (Some interaction)
  let ?res = "\<lparr>success = True, result_text = Some ([29992, 25143, 22238, 22797, 58, 32] @ t),
                exit_flag = False, user_input = Some t\<rparr>"
  from Some assms(2) obtain ag1 where
    rec: "record_result (ag\<lparr>pending_interactions := (pending_interactions ag)(i := None)\<rparr>)
            (pending_tool_call interaction) ?res = Some ag1"
    and pm: "agent_after (process_message e n ag1 continue_task) = Some ag'"
    by (auto simp: complete_interaction_def split: option.splits)
  from rec assms(1) have "reachable p mx (dialogue_manager ag1)"
    by (auto simp: record_result_def intro: reachable.tool_result)
  then show ?thesis using pm by (rule process_message_reachable)
qed

lemma new_agent_reachable:
  "reachable (system_prompt e) (config_max_tokens e) (dialogue_manager (new_agent e))"
  by (simp add: new_agent_def reachable.init)

lemma first_info_runs:
  "process_message info_env (asc ''i1'') (new_agent info_env) (asc ''hello'')
   = Returns (Tool_result_reply (asc ''info'') True (asc ''plan''))
       \<lparr>dialogue_manager =
          \<lparr>max_tokens = 16000,
           messages =
             [\<lparr>role = System, content = asc ''system''\<rparr>,
              \<lparr>role = User, content = asc ''hello''\<rparr>,
              \<lparr>role = Assistant, content = asc ''info(content=plan)''\<rparr>,
              \<lparr>role = User,
               content = tool_result_message plan_call
                 \<lparr>success = True, result_text = Some (asc ''plan''), exit_flag = False,
                  user_input = None\<rparr>\<rparr>],
           last_tool_was_info = True\<rparr>,
        pending_interactions = Map.empty,
        invocations = [plan_call]\<rparr>"
  by (simp add: info_env_def plan_call_def agent_defs message_defs Let_def asc_def
        trim_loop.simps)

text \<open>
  Claim C10. Only \<open>add_tool_result\<close> writes the flag \<open>last_tool_was_info\<close>, and it sets it
  to whether the recorded call is named \<open>info\<close>; appending a user or an assistant message
  leaves it as it is. When the flag is set and the model asks for \<open>info\<close>, \<open>process_message\<close>
  answers with the warning without calling the tool (the log of invocations is unchanged).
  It records the synthetic failed result under the intercepted \<open>info\<close> call: the dialogue
  it leaves is the one \<open>add_tool_result\<close> gives for that call and that result, whose
  message is the last of the conversation. So the flag is still set, and the next \<open>info\<close>
  call meets the same hypotheses and is intercepted as well, until a result is recorded
  under another name.
\<close>

theorem info_loop_guard:
  assumes parse: "parse_response (structured_rules e)
            (send_request e (messages (add_user_message (dialogue_manager ag) t)))
            (tool_names (tool_manager e)) = Tool_call tc"
    and info: "call_name tc = asc ''info''"
    and flag: "last_tool_was_info (dialogue_manager ag)"
    and pin: "pinned p (messages (dialogue_manager ag))"
  shows "(\<exists>ag'. process_message e i ag t
                  = Returns (Warning_reply consecutive_info consecutive_info_detected use_another_tool) ag' \<and>
               add_tool_result
                 (add_model_response (add_user_message (dialogue_manager ag) t)
                    (send_request e (messages (add_user_message (dialogue_manager ag) t))))
                 tc
                 \<lparr>success = False, result_text = Some consecutive_info_detected,
                  exit_flag = False, user_input = None\<rparr>
                 = Some (dialogue_manager ag') \<and>
               last (messages (dialogue_manager ag'))
                 = \<lparr>role = User,
                    content = tool_result_message tc
                      \<lparr>success = False, result_text = Some consecutive_info_detected,
                       exit_flag = False, user_input = None\<rparr>\<rparr> \<and>
               last_tool_was_info (dialogue_manager ag') \<and>
               invocations ag' = invocations ag \<and>
               pending_interactions ag' = pending_interactions ag \<and>
               pinned p (messages (dialogue_manager ag'))) \<and>
         (\<forall>dm tc' res dm'. add_tool_result dm tc' res = Some dm' \<longrightarrow>
               last_tool_was_info dm' = (call_name tc' = asc ''info'')) \<and>
         (\<forall>dm u. last_tool_was_info (add_user_message dm u) = last_tool_was_info dm \<and>
                 last_tool_was_info (add_assistant_message dm u) = last_tool_was_info dm)"
proof -
  let ?dm1 = "add_user_message (dialogue_manager ag) t"
  let ?response = "send_request e (messages ?dm1)"
  let ?dm2 = "add_model_response ?dm1 ?response"
  let ?failure = "\<lparr>success = False, result_text = Some consecutive_info_detected,
                    exit_flag = False, user_input = None\<rparr>"
  have "pinned p (messages ?dm2)"
    using pin by (simp add: add_model_response_pinned add_user_message_def pinned_append)
  then obtain dm' where rec: "add_tool_result ?dm2 tc ?failure = Some dm'"
    and pin': "pinned p (messages dm')" and flag': "last_tool_was_info dm'"
    and last': "last (messages dm') = \<lparr>role = User, content = tool_result_message tc ?failure\<rparr>"
    using add_tool_result_pinned [of p ?dm2 tc ?failure] info by auto
  have flag2: "last_tool_was_info ?dm2"
    using flag by (simp add: add_model_response_flag add_user_message_def)
  have "process_message e i ag t
          = Returns (Warning_reply consecutive_info consecutive_info_detected use_another_tool)
              (ag\<lparr>dialogue_manager := dm'\<rparr>)"
    using parse parse_tool_call_no_error [OF parse] info flag2 rec
    by (simp add: process_message_def Let_def dispatch_def record_result_def with_dialogue_def
          was_last_tool_info_def)
  with pin' flag' last' rec show ?thesis
    by (auto simp: add_tool_result_flag add_user_message_def add_assistant_message_def)
qed

theorem info_loop_guard_witness:
  "returned (process_message info_env (asc ''i1'') (new_agent info_env) (asc ''hello''))
     = Some (Tool_result_reply (asc ''info'') True (asc ''plan'')) \<and>
   invocations after_first_info = [plan_call] \<and>
   (\<exists>ag'. process_message info_env (asc ''i2'') after_first_info continue_task
             = Returns (Warning_reply consecutive_info consecutive_info_detected use_another_tool) ag' \<and>
          last (messages (dialogue_manager ag'))
            = \<lparr>role = User,
               content = tool_result_message plan_call
                 \<lparr>success = False, result_text = Some consecutive_info_detected,
                  exit_flag = False, user_input = None\<rparr>\<rparr> \<and>
          last_tool_was_info (dialogue_manager ag') \<and>
          invocations ag' = [plan_call])"
proof -
  have parse: "parse_response (structured_rules info_env)
            (send_request info_env (messages (add_user_message (dialogue_manager after_first_info) continue_task)))
            (tool_names (tool_manager info_env)) = Tool_call plan_call"
    by (simp add: info_env_def agent_defs asc_def)
  have info: "call_name plan_call = asc ''info''"
    by (simp add: plan_call_def)
  have flag: "last_tool_was_info (dialogue_manager after_first_info)"
    by (simp add: after_first_info_def first_info_runs)
  have pin: "pinned (asc ''system'') (messages (dialogue_manager after_first_info))"
    by (simp add: after_first_info_def first_info_runs pinned_def)
  have inv: "invocations after_first_info = [plan_call]"
    by (simp add: after_first_info_def first_info_runs)
  show ?thesis
    using info_loop_guard [OF parse info flag pin, of "asc ''i2''"] inv
    by (auto simp: first_info_runs)
qed

text \<open>
  What \<open>process_message\<close> does with the two kinds of failure of a registered tool other
  than \<open>interact\<close>. A failure the tool reports in its result is recorded and returned
  as a \<open>tool_result\<close> response with \<open>success\<close> false. An exception raised by the call
  itself is not caught: it leaves \<open>process_message\<close> with the user and the assistant
  message appended and no tool result recorded, and the handler of \<open>/api/chat\<close> answers
  with status 500.
\<close>

lemma reported_failure_is_recorded:
  assumes parse: "parse_response (structured_rules e)
            (send_request e (messages (add_user_message (dialogue_manager ag) t)))
            (tool_names (tool_manager e)) = Tool_call tc"
    and registered: "tools (tool_manager e) (call_name tc) = Some tool_function"
    and not_interact: "call_name tc \<noteq> asc ''interact''"
    and not_guarded: "call_name tc \<noteq> asc ''info'' \<or> \<not> last_tool_was_info (dialogue_manager ag)"
    and returns: "call_tool tool_function (call_args tc) = Tool_returns res"
    and failed: "\<not> success res"
    and pin: "pinned p (messages (dialogue_manager ag))"
  shows "\<exists>ag'. process_message e i ag t
                 = Returns (Tool_result_reply (call_name tc) False (or_default (result_text res) [])) ag' \<and>
               last (messages (dialogue_manager ag'))
                 = \<lparr>role = User, content = tool_result_message tc res\<rparr>"
proof -
  let ?dm1 = "add_user_message (dialogue_manager ag) t"
  let ?response = "send_request e (messages ?dm1)"
  let ?dm2 = "add_model_response ?dm1 ?response"
  have "pinned p (messages ?dm2)"
    using pin by (simp add: add_model_response_pinned add_user_message_def pinned_append)
  then obtain dm' where rec: "add_tool_result ?dm2 tc res = Some dm'"
    and last': "last (messages dm') = \<lparr>role = User, content = tool_result_message tc res\<rparr>"
    using add_tool_result_pinned [of p ?dm2 tc res] by auto
  have flag2: "call_name tc \<noteq> asc ''info'' \<or> \<not> last_tool_was_info ?dm2"
    using not_guarded by (simp add: add_model_response_flag add_user_message_def)
  have "process_message e i ag t
          = Returns (Tool_result_reply (call_name tc) False (or_default (result_text res) []))
              (ag\<lparr>dialogue_manager := dm', invocations := invocations ag @ [tc]\<rparr>)"
    using parse parse_tool_call_no_error [OF parse] registered not_interact flag2 returns failed rec
    by (auto simp: process_message_def Let_def dispatch_def with_dialogue_def record_result_def
          was_last_tool_info_def)
  with last' show ?thesis by simp
qed

lemma raised_failure_leaves_process_message:
  assumes parse: "parse_response (structured_rules e)
            (send_request e (messages (add_user_message (dialogue_manager ag) t)))
            (tool_names (tool_manager e)) = Tool_call tc"
    and registered: "tools (tool_manager e) (call_name tc) = Some tool_function"
    and not_interact: "call_name tc \<noteq> asc ''interact''"
    and not_guarded: "call_name tc \<noteq> asc ''info'' \<or> \<not> last_tool_was_info (dialogue_manager ag)"
    and raises: "call_tool tool_function (call_args tc) = Tool_raises x"
    and session: "sessions srv session_id = Some ag"
  shows "process_message e (new_interaction_id amb) ag t
           = Raises x
               (ag\<lparr>dialogue_manager :=
                     add_model_response (add_user_message (dialogue_manager ag) t)
                       (send_request e (messages (add_user_message (dialogue_manager ag) t))),
                   invocations := invocations ag @ [tc]\<rparr>) \<and>
         map_option fst (chat_message e amb srv session_id False t) = Some (Server_error x)"
proof -
  let ?dm1 = "add_user_message (dialogue_manager ag) t"
  let ?response = "send_request e (messages ?dm1)"
  have flag2: "call_name tc \<noteq> asc ''info'' \<or>
      \<not> last_tool_was_info (add_model_response ?dm1 ?response)"
    using not_guarded by (simp add: add_model_response_flag add_user_message_def)
  have pm: "process_message e (new_interaction_id amb) ag t
           = Raises x
               (ag\<lparr>dialogue_manager := add_model_response ?dm1 ?response,
                   invocations := invocations ag @ [tc]\<rparr>)"
    using parse parse_tool_call_no_error [OF parse] registered not_interact flag2 raises
    by (auto simp: process_message_def Let_def dispatch_def with_dialogue_def
          was_last_tool_info_def)
  have "session_agent e (set_flag srv session_id False) session_id = ag"
    using session by (simp add: session_agent_def set_flag_def)
  with pm show ?thesis
    by (simp add: chat_message_def Let_def)
qed

text \<open>
  Claim C3, evaluated on an argument-name mismatch. The model asks for \<open>info(text=hi)\<close>; the
  tool \<open>info\<close> is registered and its only parameter is \<open>content\<close>. The call at the tool
  boundary raises, \<open>process_message\<close> returns no response, the request is answered with
  status 500 and the exception, and the conversation of the session ends with the
  assistant message: no failed tool result is recorded or returned.
\<close>

theorem call_boundary_failure_propagates:
  "raised (process_message mismatch_env (asc ''i1'') (new_agent mismatch_env) (asc ''hello''))
     = Some (Unexpected_keyword (asc ''text'')) \<and>
   returned (process_message mismatch_env (asc ''i1'') (new_agent mismatch_env) (asc ''hello''))
     = None \<and>
   map_option fst (handle_chat mismatch_env first_ambient empty_server (Json_value (Some first_request)))
     = Some (Server_error (Unexpected_keyword (asc ''text''))) \<and>
   map_option (\<lambda>p. session_roles (snd p) (asc ''s1''))
       (handle_chat mismatch_env first_ambient empty_server (Json_value (Some first_request)))
     = Some [System, User, Assistant]"
  by (simp add: mismatch_env_def mismatch_call_def agent_defs message_defs chat_defs
        empty_server_def first_request_def first_ambient_def session_roles_def Let_def asc_def)





text \<open>
  In the agent, completing an interaction that is not pending is rejected without a model
  round-trip and without touching the agent.
\<close>

lemma unknown_interaction_rejected:
  "pending_interactions ag interaction_id = None \<Longrightarrow>
   complete_interaction e next_id ag interaction_id reply_text
     = Returns (Unknown_interaction (unknown_or_expired interaction_id)) ag"
  by (simp add: complete_interaction_def)

lemma first_step_server:
  "map_option (\<lambda>srv. session_roles srv (asc ''s1'')) server_after_first
     = Some [System, User, Assistant]"
  by (simp add: server_after_first_def session_roles_def chat_defs agent_defs message_defs
        expiry_defs Let_def asc_def)

text \<open>
  Claim C4, evaluated on the example: an interaction stored at time 0 and answered at time
  1801. The hook has removed the entry, so the handler does not call
  \<open>complete_interaction\<close>: it treats the answer as a new user message. The response is the
  \<open>exit\<close> of a further model round-trip, not an error; the conversation has grown by a user
  message, an assistant message and a tool result; and the interaction is still pending
  in the agent.
\<close>

theorem expired_completion_runs_a_turn:
  "map_option fst late_completion
     = Some (Ok_response (Exit_reply task_completed) (asc ''s1'') True) \<and>
   map_option (\<lambda>p. session_roles (snd p) (asc ''s1'')) late_completion
     = Some [System, User, Assistant, User, Assistant, User] \<and>
   map_option (\<lambda>p. is_pending (snd p) (asc ''s1'') (asc ''i1'')) late_completion = Some True"
  by (simp add: late_completion_def server_after_first_def session_roles_def is_pending_def
        chat_defs agent_defs message_defs expiry_defs Let_def asc_def trim_loop.simps)

end
